theory Spec2Isabelle
  imports Main "HOL-Library.Word"
begin

section \<open>Protocol messages\<close>

text \<open>
  The protobuf messages read by \<^verbatim>\<open>insert_statement_builder.cc\<close>. Only the members the
  builder inspects are kept. A scalar is OCTETS (value and content type, a
  \<^verbatim>\<open>uint32\<close>), STRING, or any other kind, which the builder never looks into. A field
  expression is a LITERAL, a PLACEHOLDER (a \<^verbatim>\<open>uint32\<close> position), an OBJECT (its
  \<^verbatim>\<open>fld\<close> list of key and value) or any other kind, which only the expression
  generator reads.
\<close>

datatype scalar =
    V_OCTETS string "32 word"
  | V_STRING string
  | V_OTHER string

datatype expr =
    LITERAL scalar
  | PLACEHOLDER "32 word"
  | OBJECT "(string \<times> expr) list"
  | OTHER string

type_synonym object = "(string \<times> expr) list"

datatype DataModel = DOCUMENT | TABLE

record Collection =
  name :: string
  schema :: string

datatype Column = Column (column_name: string)

record Insert =
  collection :: Collection
  data_model :: DataModel
  projection :: "Column list"
  row :: "expr list list"
  upsert :: bool

section \<open>Errors\<close>

text \<open>
  \<^verbatim>\<open>ngs::Error_code\<close> is a code and a message. The codes are macros of
  \<^verbatim>\<open>xpl_error.h\<close>; they are kept symbolic. \<open>ER_OTHER\<close> stands for the codes only the
  collaborators raise.
\<close>

datatype error_number =
    ER_X_BAD_PROJECTION
  | ER_X_MISSING_ARGUMENT
  | ER_X_BAD_INSERT_DATA
  | ER_INTERNAL_ERROR
  | ER_OTHER nat

datatype Error_code = Error_code (error: error_number) (message: string)

text \<open>The specification's names for the four errors the builder throws itself.\<close>

abbreviation BadProjection :: Error_code where
  "BadProjection \<equiv> Error_code ER_X_BAD_PROJECTION ''Invalid projection for document operation''"

abbreviation MissingRows :: Error_code where
  "MissingRows \<equiv> Error_code ER_X_MISSING_ARGUMENT ''Missing row data for Insert''"

abbreviation RowArityMismatch :: Error_code where
  "RowArityMismatch \<equiv>
     Error_code ER_X_BAD_INSERT_DATA ''Wrong number of fields in row being inserted''"

abbreviation UpsertNotSupported :: Error_code where
  "UpsertNotSupported \<equiv>
     Error_code ER_X_BAD_INSERT_DATA ''Unable update on duplicate key for TABLE data model''"

abbreviation ConfigFetchFailed :: Error_code where
  "ConfigFetchFailed \<equiv> Error_code ER_INTERNAL_ERROR ''Error executing statement''"

section \<open>Builder state and collaborators\<close>

text \<open>
  The objects the builder mutates through its pointers: the query string of the
  generator (\<open>m_qb\<close>), the bound arguments the generator exposes (\<open>m_args\<close>, never
  written), and the aggregator's members: the base id generator (its state is
  \<^typ>\<open>'g\<close>), the variables and the list of document ids.
\<close>

record Variables =
  prefix :: "16 word"
  offset :: "16 word"
  increment :: "16 word"

record 'g builder =
  m_qb :: string
  m_args :: "scalar list"
  m_base_id_generator :: 'g
  m_variables :: Variables
  m_document_ids :: "string list"

text \<open>
  The collaborators whose code is not part of this file are parameters: the two
  content type constants of \<^verbatim>\<open>Expression_generator\<close>, the stringified macro
  \<^verbatim>\<open>ER_X_BAD_UPSERT_DATA\<close>, the text each generator call appends (a call that throws
  is \<open>Inl\<close> and appends nothing), \<^verbatim>\<open>is_id_in_json\<close> and the base id generator.
\<close>

record 'g env =
  CT_PLAIN :: "32 word"
  CT_JSON :: "32 word"
  ER_X_BAD_UPSERT_DATA :: string
  collection_text :: "Collection \<Rightarrow> Error_code + string"
  identifier_text :: "string \<Rightarrow> string"
  quote_text :: "string \<Rightarrow> string"
  expr_text :: "scalar list \<Rightarrow> expr \<Rightarrow> Error_code + string"
  scalar_text :: "scalar \<Rightarrow> Error_code + string"
  object_text :: "scalar list \<Rightarrow> object \<Rightarrow> Error_code + string"
  is_id_in_json :: "string \<Rightarrow> bool"
  generate :: "Variables \<Rightarrow> 'g \<Rightarrow> string \<times> 'g"

type_synonym ('g, 'a) action = "'g builder \<Rightarrow> (Error_code + 'a) \<times> 'g builder"

text \<open>
  A member function is an action on the state. A \<^verbatim>\<open>throw\<close> is \<open>Inl\<close>; the state
  that comes with it is the state at the throw, since nothing in the file restores the
  query string.
\<close>

definition returns :: "'a \<Rightarrow> ('g, 'a) action" where
  "returns a b = (Inr a, b)"

definition throw :: "Error_code \<Rightarrow> ('g, 'a) action" where
  "throw e b = (Inl e, b)"

definition and_then :: "('g, 'a) action \<Rightarrow> ('a \<Rightarrow> ('g, 'c) action) \<Rightarrow> ('g, 'c) action" where
  "and_then m k b = (case m b of (Inl e, b') \<Rightarrow> (Inl e, b') | (Inr a, b') \<Rightarrow> k a b')"

definition seq :: "('g, unit) action \<Rightarrow> ('g, 'c) action \<Rightarrow> ('g, 'c) action" where
  "seq m k = and_then m (\<lambda>_. k)"

definition put :: "string \<Rightarrow> ('g, unit) action" where
  "put s b = (Inr (), b\<lparr>m_qb := m_qb b @ s\<rparr>)"

definition put_text :: "Error_code + string \<Rightarrow> ('g, unit) action" where
  "put_text r = (case r of Inl e \<Rightarrow> throw e | Inr t \<Rightarrow> put t)"

definition put_identifier :: "'g env \<Rightarrow> string \<Rightarrow> ('g, unit) action" where
  "put_identifier env s = put (identifier_text env s)"

definition put_quote :: "'g env \<Rightarrow> string \<Rightarrow> ('g, unit) action" where
  "put_quote env s = put (quote_text env s)"

definition put_expr :: "'g env \<Rightarrow> expr \<Rightarrow> ('g, unit) action" where
  "put_expr env e b = put_text (expr_text env (m_args b) e) b"

definition put_expr_scalar :: "'g env \<Rightarrow> scalar \<Rightarrow> ('g, unit) action" where
  "put_expr_scalar env a = put_text (scalar_text env a)"

definition put_expr_object :: "'g env \<Rightarrow> object \<Rightarrow> ('g, unit) action" where
  "put_expr_object env a b = put_text (object_text env (m_args b) a) b"

text \<open>
  Modelled from the spec: \<^verbatim>\<open>Generator::put_list\<close> is not in the file. The
  specification has the elements comma-joined: the first element, then a comma before
  each further one.
\<close>

fun put_rest :: "('a \<Rightarrow> ('g, unit) action) \<Rightarrow> 'a list \<Rightarrow> ('g, unit) action" where
  "put_rest f [] = returns ()"
| "put_rest f (x # xs) = seq (put '','') (seq (f x) (put_rest f xs))"

fun put_list :: "('a \<Rightarrow> ('g, unit) action) \<Rightarrow> 'a list \<Rightarrow> ('g, unit) action" where
  "put_list f [] = returns ()"
| "put_list f (x # xs) = seq (f x) (put_rest f xs)"

text \<open>
  Modelled from the spec: \<^verbatim>\<open>is_table_data_model\<close> and \<^verbatim>\<open>add_collection\<close> belong to
  the base class, which is not in the file. The first compares the data model with the
  relational one; the second renders the collection through the generator.
\<close>

definition is_table_data_model :: "Insert \<Rightarrow> bool" where
  "is_table_data_model msg = (data_model msg = TABLE)"

definition add_collection :: "'g env \<Rightarrow> Collection \<Rightarrow> ('g, unit) action" where
  "add_collection env c = put_text (collection_text env c)"

section \<open>Document id aggregator\<close>

text \<open>
  Modelled from the spec: \<^verbatim>\<open>add_id\<close> is declared in the header, which is not in the
  file; it appends the id to the list of document ids.
\<close>

definition add_id :: "string \<Rightarrow> 'g builder \<Rightarrow> 'g builder" where
  "add_id ident b = b\<lparr>m_document_ids := m_document_ids b @ [ident]\<rparr>"

definition generate_id :: "'g env \<Rightarrow> 'g builder \<Rightarrow> string \<times> 'g builder" where
  "generate_id env b =
     (case generate env (m_variables b) (m_base_id_generator b) of
        (ident, g) \<Rightarrow>
          (let b' = add_id ident (b\<lparr>m_base_id_generator := g\<rparr>)
           in (last (m_document_ids b'), b')))"

text \<open>
  The session behind \<^verbatim>\<open>Sql_data_result\<close>: \<open>run_query\<close> executes a statement on the
  session state \<^typ>\<open>'s\<close> and gives the rows or the error it throws; \<open>get_variables\<close> reads
  the three columns of a row, or throws.
\<close>

record ('s, 'r) Sql_session =
  run_query :: "string \<Rightarrow> 's \<Rightarrow> (Error_code + 'r list) \<times> 's"
  get_variables :: "'r \<Rightarrow> Error_code + (16 word \<times> 16 word \<times> 16 word)"

definition configue_query :: string where
  "configue_query =
     ''SELECT @@mysqlx_document_id_unique_prefix,'' @
     ''@@auto_increment_offset,@@auto_increment_increment''"

definition configue ::
  "('s, 'r) Sql_session \<Rightarrow> 's \<Rightarrow> 'g builder \<Rightarrow> (Error_code + unit) \<times> 'g builder \<times> 's" where
  "configue sql data_context b =
     (case run_query sql configue_query data_context of
        (Inl e, s) \<Rightarrow> (Inl e, b, s)
      | (Inr result, s) \<Rightarrow>
          if length result \<noteq> 1 then (Inl ConfigFetchFailed, b, s)
          else (case get_variables sql (result ! 0) of
                  Inl e \<Rightarrow> (Inl e, b, s)
                | Inr (p, off, inc) \<Rightarrow>
                    (Inr (),
                     b\<lparr>m_variables := \<lparr>prefix = p, offset = off, increment = inc\<rparr>\<rparr>, s)))"

section \<open>Insert statement builder\<close>

definition add_projection :: "'g env \<Rightarrow> Column list \<Rightarrow> bool \<Rightarrow> ('g, unit) action" where
  "add_projection env proj is_relational =
     (if is_relational then
        (if length proj \<noteq> 0 then
           seq (put '' ('')
             (seq (put_list (\<lambda>c. put_identifier env (column_name c)) proj) (put '')''))
         else returns ())
      else
        (if length proj \<noteq> 0 then throw BadProjection
         else put '' (doc)''))"

definition add_row :: "'g env \<Rightarrow> expr list \<Rightarrow> nat \<Rightarrow> ('g, unit) action" where
  "add_row env r projection_size =
     (if length r = 0 \<or> (projection_size \<noteq> 0 \<and> length r \<noteq> projection_size)
      then throw RowArityMismatch
      else seq (put ''('') (seq (put_list (put_expr env) r) (put '')'')))"

definition add_values :: "'g env \<Rightarrow> expr list list \<Rightarrow> nat \<Rightarrow> ('g, unit) action" where
  "add_values env values projection_size =
     (if length values = 0 then throw MissingRows
      else seq (put '' VALUES '')
             (put_list (\<lambda>r. add_row env r projection_size) values))"

definition add_document_literal :: "'g env \<Rightarrow> scalar \<Rightarrow> ('g, bool) action" where
  "add_document_literal env arg =
     (case arg of
        V_OCTETS v ct \<Rightarrow>
          if ct \<noteq> CT_PLAIN env \<and> ct \<noteq> CT_JSON env then returns False
          else if is_id_in_json env v then
            seq (put ''('') (seq (put_quote env v) (seq (put '')'') (returns True)))
          else
            seq (put ''(JSON_SET('')
              (seq (put_quote env v)
                (seq (put '', '$._id', '')
                  (\<lambda>b. case generate_id env b of
                          (ident, b') \<Rightarrow>
                            seq (put_quote env ident) (seq (put ''))'') (returns True)) b')))
      | V_STRING v \<Rightarrow>
          if is_id_in_json env v then
            seq (put ''('') (seq (put_expr_scalar env arg) (seq (put '')'') (returns True)))
          else
            seq (put ''(JSON_SET('')
              (seq (put_quote env v)
                (seq (put '', '$._id', '')
                  (\<lambda>b. case generate_id env b of
                          (ident, b') \<Rightarrow>
                            seq (put_quote env ident) (seq (put ''))'') (returns True)) b')))
      | V_OTHER _ \<Rightarrow> returns False)"

text \<open>
  The position is compared as \<^verbatim>\<open>uint32\<close> with the size of the argument list cast to
  \<^verbatim>\<open>uint32\<close>; a position below it indexes the list in range.
\<close>

definition add_document_placeholder :: "'g env \<Rightarrow> 32 word \<Rightarrow> ('g, bool) action" where
  "add_document_placeholder env arg b =
     (if arg < word_of_nat (length (m_args b))
      then add_document_literal env (m_args b ! unat arg) b
      else returns False b)"

fun is_id_in_object :: "object \<Rightarrow> bool" where
  "is_id_in_object [] = False"
| "is_id_in_object (field # fld) = (if fst field = ''_id'' then True else is_id_in_object fld)"

text \<open>
  The chained generator calls are taken in the order they are written: the object is
  rendered before the id is generated.
\<close>

definition add_document_object :: "'g env \<Rightarrow> object \<Rightarrow> ('g, unit) action" where
  "add_document_object env arg =
     (if is_id_in_object arg then
        seq (put ''('') (seq (put_expr_object env arg) (put '')''))
      else
        seq (put ''(JSON_SET('')
          (seq (put_expr_object env arg)
            (seq (put '', '$._id', '')
              (\<lambda>b. case generate_id env b of
                      (ident, b') \<Rightarrow> seq (put_quote env ident) (put ''))'') b'))))"

definition put_document_expr :: "'g env \<Rightarrow> expr \<Rightarrow> ('g, unit) action" where
  "put_document_expr env doc = seq (put ''('') (seq (put_expr env doc) (put '')''))"

definition add_document :: "'g env \<Rightarrow> expr list \<Rightarrow> ('g, unit) action" where
  "add_document env r =
     (if length r \<noteq> 1 then throw RowArityMismatch
      else
        (let doc = r ! 0 in
         case doc of
           LITERAL lit \<Rightarrow>
             and_then (add_document_literal env lit)
               (\<lambda>handled. if handled then returns () else put_document_expr env doc)
         | PLACEHOLDER pos \<Rightarrow>
             and_then (add_document_placeholder env pos)
               (\<lambda>handled. if handled then returns () else put_document_expr env doc)
         | OBJECT obj \<Rightarrow> add_document_object env obj
         | OTHER _ \<Rightarrow> put_document_expr env doc))"

definition add_documents :: "'g env \<Rightarrow> expr list list \<Rightarrow> ('g, unit) action" where
  "add_documents env values =
     (if length values = 0 then throw MissingRows
      else seq (put '' VALUES '') (put_list (add_document env) values))"

definition upsert_clause :: "'g env \<Rightarrow> string" where
  "upsert_clause env =
     '' ON DUPLICATE KEY UPDATE'' @
     '' doc = IF(JSON_UNQUOTE(JSON_EXTRACT(doc, '$._id'))'' @
     '' = JSON_UNQUOTE(JSON_EXTRACT(VALUES(doc), '$._id')),'' @
     '' VALUES(doc), MYSQLX_ERROR('' @ ER_X_BAD_UPSERT_DATA env @ ''))''"

definition add_upsert :: "'g env \<Rightarrow> bool \<Rightarrow> ('g, unit) action" where
  "add_upsert env is_relational =
     (if is_relational then throw UpsertNotSupported else put (upsert_clause env))"

definition build :: "'g env \<Rightarrow> Insert \<Rightarrow> ('g, unit) action" where
  "build env msg =
     seq (put ''INSERT INTO '')
       (let is_relational = is_table_data_model msg in
        seq (add_collection env (collection msg))
          (seq (add_projection env (projection msg) is_relational)
            (seq (if is_relational then add_values env (row msg) (length (projection msg))
                  else add_documents env (row msg))
               (if upsert msg then add_upsert env is_relational else returns ()))))"

section \<open>Vocabulary of the specification\<close>

text \<open>The specification's comma-joined list, written on strings.\<close>

fun comma_joined :: "string list \<Rightarrow> string" where
  "comma_joined [] = []"
| "comma_joined [t] = t"
| "comma_joined (t # u # us) = t @ '','' @ comma_joined (u # us)"

text \<open>
  The specification's row kinds. A literal is accepted when it is octets of plain or
  JSON content, or a string. A row takes the identity path when its field is an accepted
  literal, a placeholder that resolves to one, or an object; its value carries an id when
  the check the builder runs on it says so.
\<close>

fun accepted_literal :: "'g env \<Rightarrow> scalar \<Rightarrow> bool" where
  "accepted_literal env (V_OCTETS v ct) = (ct = CT_PLAIN env \<or> ct = CT_JSON env)"
| "accepted_literal env (V_STRING v) = True"
| "accepted_literal env (V_OTHER s) = False"

fun literal_has_id :: "'g env \<Rightarrow> scalar \<Rightarrow> bool" where
  "literal_has_id env (V_OCTETS v ct) = is_id_in_json env v"
| "literal_has_id env (V_STRING v) = is_id_in_json env v"
| "literal_has_id env (V_OTHER s) = False"

fun literal_value :: "scalar \<Rightarrow> string" where
  "literal_value (V_OCTETS v ct) = v"
| "literal_value (V_STRING v) = v"
| "literal_value (V_OTHER s) = s"

fun identity_path :: "'g env \<Rightarrow> scalar list \<Rightarrow> expr \<Rightarrow> bool" where
  "identity_path env args (LITERAL a) = accepted_literal env a"
| "identity_path env args (PLACEHOLDER p) =
     (if p < word_of_nat (length args) then accepted_literal env (args ! unat p) else False)"
| "identity_path env args (OBJECT obj) = True"
| "identity_path env args (OTHER s) = False"

fun value_has_id :: "'g env \<Rightarrow> scalar list \<Rightarrow> expr \<Rightarrow> bool" where
  "value_has_id env args (LITERAL a) = literal_has_id env a"
| "value_has_id env args (PLACEHOLDER p) =
     (if p < word_of_nat (length args) then literal_has_id env (args ! unat p) else False)"
| "value_has_id env args (OBJECT obj) = is_id_in_object obj"
| "value_has_id env args (OTHER s) = False"

text \<open>
  The text the builder puts for the value of a row on the identity path. A value that has
  an id is kept: octets as the quoted string literal of their bytes, a string and an
  object as the generator renders them. A value that has none is the first argument of
  \<^verbatim>\<open>JSON_SET\<close>: the quoted string literal of a literal's bytes, an object as the
  generator renders it. A placeholder stands for the argument it names.
\<close>

fun literal_kept_text :: "'g env \<Rightarrow> scalar \<Rightarrow> Error_code + string" where
  "literal_kept_text env (V_OCTETS v ct) = Inr (quote_text env v)"
| "literal_kept_text env (V_STRING v) = scalar_text env (V_STRING v)"
| "literal_kept_text env (V_OTHER s) = scalar_text env (V_OTHER s)"

fun kept_text :: "'g env \<Rightarrow> scalar list \<Rightarrow> expr \<Rightarrow> Error_code + string" where
  "kept_text env args (LITERAL a) = literal_kept_text env a"
| "kept_text env args (PLACEHOLDER p) = literal_kept_text env (args ! unat p)"
| "kept_text env args (OBJECT obj) = object_text env args obj"
| "kept_text env args (OTHER x) = expr_text env args (OTHER x)"

fun set_text :: "'g env \<Rightarrow> scalar list \<Rightarrow> expr \<Rightarrow> Error_code + string" where
  "set_text env args (LITERAL a) = Inr (quote_text env (literal_value a))"
| "set_text env args (PLACEHOLDER p) = Inr (quote_text env (literal_value (args ! unat p)))"
| "set_text env args (OBJECT obj) = object_text env args obj"
| "set_text env args (OTHER x) = expr_text env args (OTHER x)"

text \<open>
  The state after a row: with the text \<open>t\<close> in parentheses and nothing else changed; and
  with \<open>t\<close> augmented by the id that one call of the generator gives, that id appended
  to the document ids and the generator advanced by that call.
\<close>

definition parenthesized_row :: "'g builder \<Rightarrow> string \<Rightarrow> 'g builder" where
  "parenthesized_row b t = b\<lparr>m_qb := m_qb b @ ''('' @ t @ '')''\<rparr>"

definition json_set_row :: "'g env \<Rightarrow> 'g builder \<Rightarrow> string \<Rightarrow> 'g builder" where
  "json_set_row env b t =
     (case generate env (m_variables b) (m_base_id_generator b) of
        (ident, g) \<Rightarrow>
          b\<lparr>m_qb := m_qb b @ ''(JSON_SET('' @ t @ '', '$._id', '' @ quote_text env ident @ ''))'',
            m_base_id_generator := g, m_document_ids := m_document_ids b @ [ident]\<rparr>)"

section \<open>A concrete generator\<close>

text \<open>
  One instance of the collaborators, on which the builder is evaluated: identifiers in
  backticks, string literals in single quotes, objects as \<^verbatim>\<open>JSON_OBJECT\<close> calls, a
  placeholder as the argument it names (an error when there is none), any other
  expression as its own text. The id check looks for the member name in the text; the
  base generator counts its calls.
\<close>

definition demo_quote :: "string \<Rightarrow> string" where
  "demo_quote s = CHR 0x27 # s @ [CHR 0x27]"

definition demo_identifier :: "string \<Rightarrow> string" where
  "demo_identifier s = ''`'' @ s @ ''`''"

fun demo_scalar_text :: "scalar \<Rightarrow> Error_code + string" where
  "demo_scalar_text (V_OCTETS v ct) = Inr (demo_quote v)"
| "demo_scalar_text (V_STRING v) = Inr (demo_quote v)"
| "demo_scalar_text (V_OTHER s) = Inr s"

fun demo_expr_text :: "scalar list \<Rightarrow> expr \<Rightarrow> Error_code + string"
  and demo_fld_text :: "scalar list \<Rightarrow> (string \<times> expr) list \<Rightarrow> Error_code + string" where
  "demo_expr_text args (LITERAL a) = demo_scalar_text a"
| "demo_expr_text args (PLACEHOLDER p) =
     (if unat p < length args then demo_scalar_text (args ! unat p)
      else Inl (Error_code (ER_OTHER 5154) ''Invalid value of placeholder''))"
| "demo_expr_text args (OBJECT flds) =
     (case demo_fld_text args flds of
        Inl e \<Rightarrow> Inl e
      | Inr t \<Rightarrow> Inr (''JSON_OBJECT('' @ t @ '')''))"
| "demo_expr_text args (OTHER s) = Inr s"
| "demo_fld_text args [] = Inr []"
| "demo_fld_text args ((k, v) # rest) =
     (case demo_expr_text args v of
        Inl e \<Rightarrow> Inl e
      | Inr t \<Rightarrow>
          (case demo_fld_text args rest of
             Inl e \<Rightarrow> Inl e
           | Inr ts \<Rightarrow>
               Inr (demo_quote k @ '','' @ t @ (if rest = [] then [] else '','') @ ts)))"

fun demo_starts_with :: "string \<Rightarrow> string \<Rightarrow> bool" where
  "demo_starts_with [] s = True"
| "demo_starts_with (c # cs) [] = False"
| "demo_starts_with (c # cs) (d # ds) = (c = d \<and> demo_starts_with cs ds)"

fun demo_contains :: "string \<Rightarrow> string \<Rightarrow> bool" where
  "demo_contains w [] = demo_starts_with w []"
| "demo_contains w (d # ds) = (demo_starts_with w (d # ds) \<or> demo_contains w ds)"

definition demo_generate :: "Variables \<Rightarrow> nat \<Rightarrow> string \<times> nat" where
  "demo_generate v n = (''id'' @ replicate (Suc n) CHR ''*'', Suc n)"

definition demo_env :: "nat env" where
  "demo_env =
     \<lparr>CT_PLAIN = 0, CT_JSON = 2, ER_X_BAD_UPSERT_DATA = ''5018'',
      collection_text = (\<lambda>c. Inr (demo_identifier (schema c) @ ''.'' @ demo_identifier (name c))),
      identifier_text = demo_identifier,
      quote_text = demo_quote,
      expr_text = demo_expr_text,
      scalar_text = demo_scalar_text,
      object_text = (\<lambda>args obj. demo_expr_text args (OBJECT obj)),
      is_id_in_json = demo_contains ''_id'',
      generate = demo_generate\<rparr>"

definition demo_builder :: "nat builder" where
  "demo_builder =
     \<lparr>m_qb = [], m_args = [V_OTHER ''7''], m_base_id_generator = 0,
      m_variables = \<lparr>prefix = 0, offset = 1, increment = 1\<rparr>,
      m_document_ids = []\<rparr>"

definition demo_collection :: Collection where
  "demo_collection = \<lparr>name = ''c'', schema = ''s''\<rparr>"

text \<open>A session that logs the statements it runs and answers with the rows it holds.\<close>

definition demo_session :: "(string list \<times> (16 word \<times> 16 word \<times> 16 word) list,
    16 word \<times> 16 word \<times> 16 word) Sql_session" where
  "demo_session =
     \<lparr>run_query = (\<lambda>q (log, rows). (Inr rows, (log @ [q], rows))),
      get_variables = Inr\<rparr>"

section \<open>Proof vocabulary\<close>

text \<open>
  Every action of the builder only appends: it leaves the arguments and the variables
  alone and extends the query string and the list of document ids.
\<close>

definition extends :: "'g builder \<Rightarrow> 'g builder \<Rightarrow> bool" where
  "extends b b' \<longleftrightarrow>
     m_args b' = m_args b \<and> m_variables b' = m_variables b \<and>
     (\<exists>t. m_qb b' = m_qb b @ t) \<and> (\<exists>ids. m_document_ids b' = m_document_ids b @ ids)"

definition appends :: "('g, 'a) action \<Rightarrow> bool" where
  "appends m \<longleftrightarrow> (\<forall>b. extends b (snd (m b)))"

text \<open>The part of \<open>build\<close> that follows the projection.\<close>

definition build_tail :: "'g env \<Rightarrow> Insert \<Rightarrow> ('g, unit) action" where
  "build_tail env msg =
     seq (if data_model msg = TABLE then add_values env (row msg) (length (projection msg))
          else add_documents env (row msg))
       (if upsert msg then add_upsert env (data_model msg = TABLE) else returns ())"

text \<open>
  The text of a field and of a parenthesized row as the generator renders them, and the
  condition that it renders every field of every row.
\<close>

definition field_text :: "'g env \<Rightarrow> scalar list \<Rightarrow> expr \<Rightarrow> string" where
  "field_text env args f = (case expr_text env args f of Inl e \<Rightarrow> [] | Inr t \<Rightarrow> t)"

definition row_text :: "'g env \<Rightarrow> scalar list \<Rightarrow> expr list \<Rightarrow> string" where
  "row_text env args r = ''('' @ comma_joined (map (field_text env args) r) @ '')''"

definition fields_render :: "'g env \<Rightarrow> scalar list \<Rightarrow> expr list list \<Rightarrow> bool" where
  "fields_render env args rows =
     list_all (list_all (\<lambda>f. case expr_text env args f of Inl e \<Rightarrow> False | Inr t \<Rightarrow> True)) rows"

text \<open>The part of \<open>build\<close> that precedes the upsert clause.\<close>

definition build_body :: "'g env \<Rightarrow> Insert \<Rightarrow> ('g, unit) action" where
  "build_body env msg =
     seq (put ''INSERT INTO '')
       (seq (add_collection env (collection msg))
          (seq (add_projection env (projection msg) (data_model msg = TABLE))
             (if data_model msg = TABLE
              then add_values env (row msg) (length (projection msg))
              else add_documents env (row msg))))"

definition demo_insert :: "DataModel \<Rightarrow> Column list \<Rightarrow> expr list list \<Rightarrow> bool \<Rightarrow> Insert" where
  "demo_insert dm proj rows ups =
     \<lparr>collection = demo_collection, data_model = dm, projection = proj, row = rows, upsert = ups\<rparr>"

section \<open>Sequencing and the append-only invariant\<close>

lemma seq_apply:
  "seq m k b = (case m b of (Inl e, b') \<Rightarrow> (Inl e, b') | (Inr a, b') \<Rightarrow> k b')"
  by (simp add: seq_def and_then_def)

lemma seq_put: "seq (put s) k b = k (b\<lparr>m_qb := m_qb b @ s\<rparr>)"
  by (simp add: seq_apply put_def)

lemma extends_refl [simp]: "extends b b"
  by (simp add: extends_def)

lemma extends_trans: "extends a b \<Longrightarrow> extends b c \<Longrightarrow> extends a c"
  by (auto simp: extends_def)

lemma extends_put [simp]: "extends b (b\<lparr>m_qb := m_qb b @ s\<rparr>)"
  by (simp add: extends_def)

lemma appends_returns [simp]: "appends (returns a)"
  by (simp add: appends_def returns_def)

lemma appends_throw [simp]: "appends (throw e)"
  by (simp add: appends_def throw_def)

lemma appends_put [simp]: "appends (put s)"
  by (simp add: appends_def put_def)

lemma appends_put_text [simp]: "appends (put_text r)"
  by (cases r) (simp_all add: put_text_def)

lemma appends_and_then:
  assumes "appends m" and "\<And>a. appends (k a)"
  shows "appends (and_then m k)"
proof (unfold appends_def, rule allI)
  fix b
  obtain r b' where mb: "m b = (r, b')" by (cases "m b")
  with assms(1) have e1: "extends b b'" by (auto simp: appends_def dest: spec [of _ b])
  show "extends b (snd (and_then m k b))"
  proof (cases r)
    case (Inl e)
    with mb e1 show ?thesis by (simp add: and_then_def)
  next
    case (Inr a)
    from assms(2) have "extends b' (snd (k a b'))" by (simp add: appends_def)
    with e1 have "extends b (snd (k a b'))" by (rule extends_trans)
    with mb Inr show ?thesis by (simp add: and_then_def)
  qed
qed

lemma appends_seq: "appends m \<Longrightarrow> appends k \<Longrightarrow> appends (seq m k)"
  by (simp add: seq_def appends_and_then)

lemma appends_put_rest: "(\<And>x. appends (f x)) \<Longrightarrow> appends (put_rest f xs)"
  by (induction xs) (simp_all add: appends_seq)

lemma appends_put_list: "(\<And>x. appends (f x)) \<Longrightarrow> appends (put_list f xs)"
  by (cases xs) (simp_all add: appends_seq appends_put_rest)

lemma appends_put_quote [simp]: "appends (put_quote env s)"
  by (simp add: put_quote_def)

lemma appends_put_identifier [simp]: "appends (put_identifier env s)"
  by (simp add: put_identifier_def)

lemma appends_put_expr_scalar [simp]: "appends (put_expr_scalar env a)"
  by (simp add: put_expr_scalar_def)

lemma appends_put_expr [simp]: "appends (put_expr env e)"
proof -
  have "extends b (snd (put_expr env e b))" for b
    using appends_put_text [of "expr_text env (m_args b) e"]
    unfolding put_expr_def appends_def by blast
  then show ?thesis by (simp add: appends_def)
qed

lemma appends_put_expr_object [simp]: "appends (put_expr_object env a)"
proof -
  have "extends b (snd (put_expr_object env a b))" for b
    using appends_put_text [of "object_text env (m_args b) a"]
    unfolding put_expr_object_def appends_def by blast
  then show ?thesis by (simp add: appends_def)
qed

lemma appends_generate_then:
  assumes "\<And>ident. appends (k ident)"
  shows "appends (\<lambda>b. case generate_id env b of (ident, b') \<Rightarrow> k ident b')"
proof (unfold appends_def, rule allI)
  fix b
  obtain ident b' where g: "generate_id env b = (ident, b')" by (cases "generate_id env b")
  then have "extends b b'"
    by (auto simp: generate_id_def add_id_def extends_def Let_def split: prod.splits)
  moreover from assms have "extends b' (snd (k ident b'))" by (simp add: appends_def)
  ultimately have "extends b (snd (k ident b'))" by (rule extends_trans)
  with g show "extends b (snd (case generate_id env b of (ident, b') \<Rightarrow> k ident b'))" by simp
qed

lemma appends_add_projection [simp]: "appends (add_projection env proj rel)"
  by (simp add: add_projection_def appends_seq appends_put_list)

lemma appends_add_row [simp]: "appends (add_row env r n)"
  by (simp add: add_row_def appends_seq appends_put_list)

lemma appends_add_values [simp]: "appends (add_values env vs n)"
  by (simp add: add_values_def appends_seq appends_put_list)

lemma appends_add_document_literal [simp]: "appends (add_document_literal env a)"
  by (cases a)
     (simp_all add: add_document_literal_def appends_seq appends_generate_then)

lemma appends_add_document_placeholder [simp]: "appends (add_document_placeholder env p)"
proof -
  have "extends b (snd (add_document_placeholder env p b))" for b
    using appends_add_document_literal [of env "m_args b ! unat p"]
    unfolding add_document_placeholder_def appends_def returns_def by auto
  then show ?thesis by (simp add: appends_def)
qed

lemma appends_add_document_object [simp]: "appends (add_document_object env obj)"
  by (simp add: add_document_object_def appends_seq appends_generate_then)

lemma appends_put_document_expr [simp]: "appends (put_document_expr env doc)"
  by (simp add: put_document_expr_def appends_seq)

lemma appends_add_document [simp]: "appends (add_document env r)"
proof (cases "length r \<noteq> 1")
  case True
  then show ?thesis by (simp add: add_document_def)
next
  case False
  then show ?thesis
    by (cases "r ! 0") (simp_all add: add_document_def appends_and_then)
qed

lemma appends_add_documents [simp]: "appends (add_documents env vs)"
  by (simp add: add_documents_def appends_seq appends_put_list)

lemma appends_add_upsert [simp]: "appends (add_upsert env rel)"
  by (simp add: add_upsert_def)

lemma appends_add_collection [simp]: "appends (add_collection env c)"
  by (simp add: add_collection_def)

lemma appends_build_tail [simp]: "appends (build_tail env msg)"
  by (simp add: build_tail_def appends_seq)

lemma build_split:
  "build env msg b =
     seq (add_collection env (collection msg))
       (seq (add_projection env (projection msg) (data_model msg = TABLE)) (build_tail env msg))
       (b\<lparr>m_qb := m_qb b @ ''INSERT INTO ''\<rparr>)"
  by (simp add: build_def build_tail_def is_table_data_model_def Let_def seq_put)

lemma appends_build_rest:
  "appends (seq (add_collection env c) (seq (add_projection env proj rel) (build_tail env msg)))"
  by (simp add: appends_seq)

lemma build_collection:
  assumes "collection_text env (collection msg) = Inr c"
  shows "build env msg b =
     seq (add_projection env (projection msg) (data_model msg = TABLE)) (build_tail env msg)
       (b\<lparr>m_qb := m_qb b @ ''INSERT INTO '' @ c\<rparr>)"
  using assms by (simp add: build_split add_collection_def put_text_def seq_apply put_def)

section \<open>Rendering of lists, rows and relational statements\<close>

lemma put_rest_texts:
  assumes "\<And>x b. x \<in> set xs \<Longrightarrow> m_args b = args \<Longrightarrow> f x b = (Inr (), b\<lparr>m_qb := m_qb b @ g x\<rparr>)"
    and "m_args b = args"
  shows "put_rest f xs b = (Inr (), b\<lparr>m_qb := m_qb b @ concat (map (\<lambda>x. '','' @ g x) xs)\<rparr>)"
  using assms
proof (induction xs arbitrary: b)
  case Nil
  then show ?case by (simp add: returns_def)
next
  case (Cons x xs)
  let ?b1 = "b\<lparr>m_qb := m_qb b @ '',''\<rparr>"
  let ?b2 = "?b1\<lparr>m_qb := m_qb ?b1 @ g x\<rparr>"
  have fx: "f x ?b1 = (Inr (), ?b2)"
    using Cons.prems by simp
  have rest: "put_rest f xs ?b2 = (Inr (), ?b2\<lparr>m_qb := m_qb ?b2 @ concat (map (\<lambda>x. '','' @ g x) xs)\<rparr>)"
    using Cons.prems by (intro Cons.IH) simp_all
  show ?case
    using fx rest by (simp add: seq_apply put_def)
qed

lemma comma_joined_Cons:
  "comma_joined (t # ts) = t @ concat (map (\<lambda>u. '','' @ u) ts)"
  by (induction ts arbitrary: t) simp_all

lemma put_list_texts:
  assumes "\<And>x b. x \<in> set xs \<Longrightarrow> m_args b = args \<Longrightarrow> f x b = (Inr (), b\<lparr>m_qb := m_qb b @ g x\<rparr>)"
    and "m_args b = args"
  shows "put_list f xs b = (Inr (), b\<lparr>m_qb := m_qb b @ comma_joined (map g xs)\<rparr>)"
proof (cases xs)
  case Nil
  then show ?thesis by (simp add: returns_def)
next
  case (Cons x ys)
  let ?b1 = "b\<lparr>m_qb := m_qb b @ g x\<rparr>"
  have fx: "f x b = (Inr (), ?b1)"
    using assms Cons by simp
  have rest: "put_rest f ys ?b1 = (Inr (), ?b1\<lparr>m_qb := m_qb ?b1 @ concat (map (\<lambda>x. '','' @ g x) ys)\<rparr>)"
    using assms Cons by (intro put_rest_texts [where args = args]) simp_all
  show ?thesis
    using fx rest by (simp add: Cons seq_apply comma_joined_Cons comp_def)
qed

lemma put_expr_text:
  assumes "expr_text env (m_args b) f = Inr t"
  shows "put_expr env f b = (Inr (), b\<lparr>m_qb := m_qb b @ field_text env (m_args b) f\<rparr>)"
  using assms by (simp add: put_expr_def put_text_def put_def field_text_def)

lemma add_row_text:
  assumes "r \<noteq> []" and "n = 0 \<or> length r = n"
    and "list_all (\<lambda>f. case expr_text env args f of Inl e \<Rightarrow> False | Inr t \<Rightarrow> True) r"
    and "m_args b = args"
  shows "add_row env r n b = (Inr (), b\<lparr>m_qb := m_qb b @ row_text env args r\<rparr>)"
proof -
  let ?b1 = "b\<lparr>m_qb := m_qb b @ ''(''\<rparr>"
  have each: "put_expr env f s = (Inr (), s\<lparr>m_qb := m_qb s @ field_text env args f\<rparr>)"
    if "f \<in> set r" and "m_args s = args" for f s
  proof -
    from assms(3) that(1) obtain t where "expr_text env args f = Inr t"
      by (cases "expr_text env args f") (auto simp: list_all_iff)
    with that(2) show ?thesis using put_expr_text [of env s f t] by simp
  qed
  have fields: "put_list (put_expr env) r ?b1 =
      (Inr (), ?b1\<lparr>m_qb := m_qb ?b1 @ comma_joined (map (field_text env args) r)\<rparr>)"
    using each assms(4) by (intro put_list_texts [where args = args]) simp_all
  show ?thesis
    using assms(1,2) fields
    by (auto simp add: add_row_def seq_apply put_def row_text_def)
qed

lemma add_values_text:
  assumes "rows \<noteq> []" and "\<forall>r \<in> set rows. r \<noteq> [] \<and> (n = 0 \<or> length r = n)"
    and "fields_render env (m_args b) rows"
  shows "add_values env rows n b =
     (Inr (), b\<lparr>m_qb := m_qb b @ '' VALUES '' @ comma_joined (map (row_text env (m_args b)) rows)\<rparr>)"
proof -
  let ?b1 = "b\<lparr>m_qb := m_qb b @ '' VALUES ''\<rparr>"
  have each: "add_row env r n s = (Inr (), s\<lparr>m_qb := m_qb s @ row_text env (m_args b) r\<rparr>)"
    if "r \<in> set rows" and "m_args s = m_args b" for r s
    using that assms(2,3) by (intro add_row_text) (auto simp: fields_render_def list_all_iff)
  have "put_list (\<lambda>r. add_row env r n) rows ?b1 =
      (Inr (), ?b1\<lparr>m_qb := m_qb ?b1 @ comma_joined (map (row_text env (m_args b)) rows)\<rparr>)"
    using each by (intro put_list_texts [where args = "m_args b"]) simp_all
  with assms(1) show ?thesis
    by (simp add: add_values_def seq_apply put_def)
qed

lemma put_identifier_list:
  "put_list (\<lambda>c. put_identifier env (column_name c)) proj b =
     (Inr (), b\<lparr>m_qb := m_qb b @ comma_joined (map (\<lambda>c. identifier_text env (column_name c)) proj)\<rparr>)"
  by (intro put_list_texts [where args = "m_args b"]) (simp_all add: put_identifier_def put_def)

lemma add_projection_table:
  "add_projection env proj True b =
     (Inr (), b\<lparr>m_qb := m_qb b @
        (if proj = [] then []
         else '' ('' @ comma_joined (map (\<lambda>c. identifier_text env (column_name c)) proj) @ '')'')\<rparr>)"
proof (cases "proj = []")
  case True
  then show ?thesis by (simp add: add_projection_def returns_def)
next
  case False
  let ?b1 = "b\<lparr>m_qb := m_qb b @ '' (''\<rparr>"
  note cols = put_identifier_list [of env proj ?b1]
  from False cols show ?thesis
    by (simp add: add_projection_def seq_apply put_def)
qed

lemma relational_build:
  assumes "data_model msg = TABLE" and "row msg \<noteq> []"
    and "\<forall>r \<in> set (row msg). r \<noteq> [] \<and> (projection msg = [] \<or> length r = length (projection msg))"
    and "\<not> upsert msg"
    and "collection_text env (collection msg) = Inr c"
    and "fields_render env (m_args b) (row msg)"
  shows "build env msg b =
     (Inr (), b\<lparr>m_qb := m_qb b @ ''INSERT INTO '' @ c @
        (if projection msg = [] then []
         else '' ('' @ comma_joined (map (\<lambda>c. identifier_text env (column_name c)) (projection msg)) @ '')'') @
        '' VALUES '' @ comma_joined (map (row_text env (m_args b)) (row msg))\<rparr>)"
proof -
  let ?b0 = "b\<lparr>m_qb := m_qb b @ ''INSERT INTO '' @ c\<rparr>"
  let ?p = "if projection msg = [] then []
         else '' ('' @ comma_joined (map (\<lambda>c. identifier_text env (column_name c)) (projection msg)) @ '')''"
  let ?b1 = "?b0\<lparr>m_qb := m_qb ?b0 @ ?p\<rparr>"
  have proj: "add_projection env (projection msg) (data_model msg = TABLE) ?b0 = (Inr (), ?b1)"
    using assms(1) add_projection_table [of env "projection msg" ?b0] by simp
  have vals: "add_values env (row msg) (length (projection msg)) ?b1 =
      (Inr (), ?b1\<lparr>m_qb := m_qb ?b1 @ '' VALUES '' @ comma_joined (map (row_text env (m_args ?b1)) (row msg))\<rparr>)"
    using assms(2,3,6) by (intro add_values_text) auto
  have tail: "build_tail env msg ?b1 =
      (Inr (), ?b1\<lparr>m_qb := m_qb ?b1 @ '' VALUES '' @ comma_joined (map (row_text env (m_args ?b1)) (row msg))\<rparr>)"
    using assms(1,4) vals by (simp add: build_tail_def seq_apply returns_def)
  show ?thesis
    using proj tail by (simp add: build_collection [OF assms(5)] seq_apply)
qed

section \<open>Claims\<close>

subsection \<open>Unfolding sets for evaluation\<close>

lemmas action_defs = returns_def throw_def and_then_def seq_def put_def put_text_def
  put_identifier_def put_quote_def put_expr_def put_expr_scalar_def put_expr_object_def

lemmas builder_defs = build_def is_table_data_model_def add_collection_def add_projection_def
  add_values_def add_row_def add_documents_def add_document_def put_document_expr_def
  add_document_literal_def add_document_placeholder_def add_document_object_def
  add_upsert_def upsert_clause_def generate_id_def add_id_def

lemmas demo_defs = demo_env_def demo_builder_def demo_collection_def demo_quote_def
  demo_identifier_def demo_generate_def

subsection \<open>Failure and the query string\<close>

lemma build_failure_extends:
  "\<exists>t. m_qb (snd (build env msg b)) = m_qb b @ ''INSERT INTO '' @ t"
proof -
  let ?b0 = "b\<lparr>m_qb := m_qb b @ ''INSERT INTO ''\<rparr>"
  let ?rest = "seq (add_collection env (collection msg))
       (seq (add_projection env (projection msg) (data_model msg = TABLE)) (build_tail env msg))"
  have "extends ?b0 (snd (?rest ?b0))"
    using appends_build_rest [of env "collection msg" "projection msg" "data_model msg = TABLE" msg]
    unfolding appends_def by blast
  then obtain t where "m_qb (snd (?rest ?b0)) = m_qb ?b0 @ t"
    by (auto simp: extends_def)
  then show ?thesis by (simp add: build_split)
qed

text \<open>
  Claim C2, as amended. When \<open>build\<close> fails, with a validation error or any other, it
  returns the error in place of a statement, but the query string is not restored: it
  holds what it held at entry followed by the text emitted before the failing check,
  which begins with \<^verbatim>\<open>INSERT INTO \<close>. So it differs from its state at entry.
\<close>

theorem build_failure_keeps_emitted_text:
  assumes "build env msg b = (Inl e, b')"
  shows "(\<exists>t. m_qb b' = m_qb b @ ''INSERT INTO '' @ t) \<and> m_qb b' \<noteq> m_qb b"
proof -
  from build_failure_extends [of env msg b] assms
  obtain t where t: "m_qb b' = m_qb b @ ''INSERT INTO '' @ t" by auto
  then show ?thesis by auto
qed

theorem build_failure_keeps_emitted_text_witness:
  "build demo_env (demo_insert DOCUMENT [] [] False) demo_builder =
     (Inl MissingRows, demo_builder\<lparr>m_qb := ''INSERT INTO `s`.`c` (doc)''\<rparr>) \<and>
   (\<exists>t. ''INSERT INTO `s`.`c` (doc)'' = m_qb demo_builder @ ''INSERT INTO '' @ t)"
proof -
  have run: "build demo_env (demo_insert DOCUMENT [] [] False) demo_builder =
     (Inl MissingRows, demo_builder\<lparr>m_qb := ''INSERT INTO `s`.`c` (doc)''\<rparr>)"
    by (simp add: builder_defs action_defs demo_defs demo_insert_def)
  from build_failure_keeps_emitted_text [OF run] show ?thesis
    using run by simp
qed

text \<open>
  Claim C2 as stated fails: a document request with a projection is refused with
  \<open>BadProjection\<close> after the prefix and the collection have been written to the query
  string, which was empty at entry.
\<close>

theorem build_failure_buffer_counterexample:
  "fst (build demo_env (demo_insert DOCUMENT [Column ''a''] [[OTHER ''1'']] False) demo_builder)
     = Inl BadProjection \<and>
   m_qb (snd (build demo_env (demo_insert DOCUMENT [Column ''a''] [[OTHER ''1'']] False)
     demo_builder)) = ''INSERT INTO `s`.`c`'' \<and>
   m_qb (snd (build demo_env (demo_insert DOCUMENT [Column ''a''] [[OTHER ''1'']] False)
     demo_builder)) \<noteq> m_qb demo_builder"
  by (simp add: builder_defs action_defs demo_defs demo_insert_def)

subsection \<open>Projection, missing rows and row arity\<close>

lemma document_projection_refused:
  assumes "data_model msg = DOCUMENT" and "collection_text env (collection msg) = Inr c"
    and "projection msg \<noteq> []"
  shows "build env msg b = (Inl BadProjection, b\<lparr>m_qb := m_qb b @ ''INSERT INTO '' @ c\<rparr>)"
  using assms by (simp add: build_collection add_projection_def seq_apply throw_def)

lemma document_projection_doc:
  assumes "data_model msg = DOCUMENT" and "collection_text env (collection msg) = Inr c"
    and "projection msg = []"
  shows "build env msg b =
     build_tail env msg (b\<lparr>m_qb := m_qb b @ ''INSERT INTO '' @ c @ '' (doc)''\<rparr>)"
  using assms by (simp add: build_collection add_projection_def seq_apply put_def)

lemma relational_projection:
  assumes "data_model msg = TABLE" and "collection_text env (collection msg) = Inr c"
  shows "build env msg b =
     build_tail env msg (b\<lparr>m_qb := m_qb b @ ''INSERT INTO '' @ c @
        (if projection msg = [] then []
         else '' ('' @ comma_joined (map (\<lambda>c. identifier_text env (column_name c)) (projection msg)) @ '')'')\<rparr>)"
  using assms add_projection_table [of env "projection msg" "b\<lparr>m_qb := m_qb b @ ''INSERT INTO '' @ c\<rparr>"]
  by (simp add: build_collection seq_apply)

lemma build_tail_no_rows:
  assumes "row msg = []"
  shows "build_tail env msg b = (Inl MissingRows, b)"
  using assms by (simp add: build_tail_def add_values_def add_documents_def seq_apply throw_def)

lemma add_row_arity:
  assumes "length r = 0 \<or> (n \<noteq> 0 \<and> length r \<noteq> n)"
  shows "add_row env r n b = (Inl RowArityMismatch, b)"
  using assms by (auto simp: add_row_def throw_def)

lemma add_document_arity:
  assumes "length r \<noteq> 1"
  shows "add_document env r b = (Inl RowArityMismatch, b)"
  using assms by (simp add: add_document_def throw_def)

lemma build_tail_first_row_relational:
  assumes "data_model msg = TABLE" and "row msg = r # rs"
    and "length r = 0 \<or> (projection msg \<noteq> [] \<and> length r \<noteq> length (projection msg))"
  shows "fst (build_tail env msg b) = Inl RowArityMismatch"
proof -
  have "add_row env r (length (projection msg)) s = (Inl RowArityMismatch, s)" for s
    using assms(3) by (intro add_row_arity) auto
  with assms(1,2) show ?thesis
    by (simp add: build_tail_def add_values_def seq_apply put_def)
qed

lemma build_tail_first_row_document:
  assumes "data_model msg = DOCUMENT" and "row msg = r # rs" and "length r \<noteq> 1"
  shows "fst (build_tail env msg b) = Inl RowArityMismatch"
proof -
  have "add_document env r s = (Inl RowArityMismatch, s)" for s
    using assms(3) by (rule add_document_arity)
  with assms(1,2) show ?thesis
    by (simp add: build_tail_def add_documents_def seq_apply put_def)
qed

text \<open>
  Claim C5. Where the generator renders the collection, a document request with a
  projection fails with \<open>BadProjection\<close>, and a document request with no projection
  has \<^verbatim>\<open> (doc)\<close> emitted as its column list, right after the collection.
\<close>

theorem document_projection:
  assumes "data_model msg = DOCUMENT" and "collection_text env (collection msg) = Inr c"
  shows "(projection msg \<noteq> [] \<longrightarrow> fst (build env msg b) = Inl BadProjection) \<and>
    (projection msg = [] \<longrightarrow>
       (\<exists>t. m_qb (snd (build env msg b)) = m_qb b @ ''INSERT INTO '' @ c @ '' (doc)'' @ t))"
proof (intro conjI impI)
  assume "projection msg \<noteq> []"
  with assms show "fst (build env msg b) = Inl BadProjection"
    by (simp add: document_projection_refused)
next
  assume empty: "projection msg = []"
  let ?b1 = "b\<lparr>m_qb := m_qb b @ ''INSERT INTO '' @ c @ '' (doc)''\<rparr>"
  have "extends ?b1 (snd (build_tail env msg ?b1))"
    using appends_build_tail [of env msg] unfolding appends_def by blast
  then obtain t where "m_qb (snd (build_tail env msg ?b1)) = m_qb ?b1 @ t"
    by (auto simp: extends_def)
  then show "\<exists>t. m_qb (snd (build env msg b)) = m_qb b @ ''INSERT INTO '' @ c @ '' (doc)'' @ t"
    by (simp add: document_projection_doc [OF assms empty])
qed

theorem document_projection_witness:
  "fst (build demo_env (demo_insert DOCUMENT [Column ''a''] [[OTHER ''1'']] False) demo_builder)
     = Inl BadProjection \<and>
   (\<exists>t. m_qb (snd (build demo_env (demo_insert DOCUMENT [] [[OTHER ''1'']] False) demo_builder))
      = ''INSERT INTO `s`.`c` (doc)'' @ t)"
proof -
  have dm: "data_model (demo_insert DOCUMENT p rows False) = DOCUMENT" for p rows
    by (simp add: demo_insert_def)
  have col: "collection_text demo_env (collection (demo_insert DOCUMENT p rows False))
      = Inr ''`s`.`c`''" for p rows
    by (simp add: demo_insert_def demo_defs)
  from document_projection [OF dm col, of "[Column ''a'']" "[[OTHER ''1'']]" demo_builder]
    document_projection [OF dm col, of "[]" "[[OTHER ''1'']]" demo_builder]
  show ?thesis
    by (simp add: demo_insert_def demo_builder_def)
qed

text \<open>
  Claim C7, as amended. Where the generator renders the collection, a request with no
  rows fails with \<open>MissingRows\<close>, except a document request with a projection, which
  fails with \<open>BadProjection\<close> before the rows are looked at. A relational row fails
  with \<open>RowArityMismatch\<close> when it is empty or, a projection having been supplied,
  its field count differs from the projection length; a document row fails with it when
  its field count is not one. Both are stated for \<open>add_row\<close> and \<open>add_document\<close>
  in any state, and for \<open>build\<close> when the offending row is the first.
\<close>

theorem missing_rows_and_row_arity:
  assumes "collection_text env (collection msg) = Inr c"
  shows "(row msg = [] \<and> \<not> (data_model msg = DOCUMENT \<and> projection msg \<noteq> []) \<longrightarrow>
            fst (build env msg b) = Inl MissingRows) \<and>
    (row msg = [] \<and> data_model msg = DOCUMENT \<and> projection msg \<noteq> [] \<longrightarrow>
            fst (build env msg b) = Inl BadProjection) \<and>
    (length r = 0 \<or> (n \<noteq> 0 \<and> length r \<noteq> n) \<longrightarrow>
            add_row env r n s = (Inl RowArityMismatch, s)) \<and>
    (length r \<noteq> 1 \<longrightarrow> add_document env r s = (Inl RowArityMismatch, s)) \<and>
    (data_model msg = TABLE \<and> row msg = r # rs \<and>
       (length r = 0 \<or> (projection msg \<noteq> [] \<and> length r \<noteq> length (projection msg))) \<longrightarrow>
            fst (build env msg b) = Inl RowArityMismatch) \<and>
    (data_model msg = DOCUMENT \<and> projection msg = [] \<and> row msg = r # rs \<and> length r \<noteq> 1 \<longrightarrow>
            fst (build env msg b) = Inl RowArityMismatch)"
proof (intro conjI impI)
  assume a: "row msg = [] \<and> \<not> (data_model msg = DOCUMENT \<and> projection msg \<noteq> [])"
  show "fst (build env msg b) = Inl MissingRows"
  proof (cases "data_model msg")
    case DOCUMENT
    with a have "projection msg = []" by simp
    with a DOCUMENT assms show ?thesis
      by (simp add: document_projection_doc build_tail_no_rows)
  next
    case TABLE
    with a assms show ?thesis
      by (simp add: relational_projection build_tail_no_rows)
  qed
next
  assume "row msg = [] \<and> data_model msg = DOCUMENT \<and> projection msg \<noteq> []"
  with assms show "fst (build env msg b) = Inl BadProjection"
    by (simp add: document_projection_refused)
next
  assume "length r = 0 \<or> (n \<noteq> 0 \<and> length r \<noteq> n)"
  then show "add_row env r n s = (Inl RowArityMismatch, s)"
    by (rule add_row_arity)
next
  assume "length r \<noteq> 1"
  then show "add_document env r s = (Inl RowArityMismatch, s)"
    by (rule add_document_arity)
next
  assume a: "data_model msg = TABLE \<and> row msg = r # rs \<and>
       (length r = 0 \<or> (projection msg \<noteq> [] \<and> length r \<noteq> length (projection msg)))"
  then have "fst (build_tail env msg s) = Inl RowArityMismatch" for s
    by (intro build_tail_first_row_relational) auto
  with a assms show "fst (build env msg b) = Inl RowArityMismatch"
    by (simp add: relational_projection)
next
  assume a: "data_model msg = DOCUMENT \<and> projection msg = [] \<and> row msg = r # rs \<and> length r \<noteq> 1"
  then have "fst (build_tail env msg s) = Inl RowArityMismatch" for s
    by (intro build_tail_first_row_document) auto
  with a assms show "fst (build env msg b) = Inl RowArityMismatch"
    by (simp add: document_projection_doc)
qed

lemma demo_collection_text:
  "collection_text demo_env (collection (demo_insert dm p rows ups)) = Inr ''`s`.`c`''"
  by (simp add: demo_insert_def demo_defs)

theorem missing_rows_and_row_arity_witness:
  "fst (build demo_env (demo_insert TABLE [Column ''a''] [] False) demo_builder) = Inl MissingRows \<and>
   fst (build demo_env (demo_insert DOCUMENT [] [] False) demo_builder) = Inl MissingRows \<and>
   fst (build demo_env (demo_insert DOCUMENT [Column ''a''] [] False) demo_builder)
     = Inl BadProjection \<and>
   add_row demo_env [OTHER ''1''] 2 demo_builder = (Inl RowArityMismatch, demo_builder) \<and>
   add_document demo_env [OTHER ''1'', OTHER ''2''] demo_builder
     = (Inl RowArityMismatch, demo_builder) \<and>
   fst (build demo_env (demo_insert TABLE [Column ''a'', Column ''b''] [[OTHER ''1'']] False)
     demo_builder) = Inl RowArityMismatch \<and>
   fst (build demo_env (demo_insert DOCUMENT [] [[]] False) demo_builder) = Inl RowArityMismatch"
  using
    missing_rows_and_row_arity [OF demo_collection_text,
      of TABLE "[Column ''a'']" "[]" False demo_builder "[OTHER ''1'']" 2 demo_builder "[]"]
    missing_rows_and_row_arity [OF demo_collection_text,
      of DOCUMENT "[]" "[]" False demo_builder "[OTHER ''1'', OTHER ''2'']" 0 demo_builder "[]"]
    missing_rows_and_row_arity [OF demo_collection_text,
      of DOCUMENT "[Column ''a'']" "[]" False demo_builder "[]" 0 demo_builder "[]"]
    missing_rows_and_row_arity [OF demo_collection_text,
      of TABLE "[Column ''a'', Column ''b'']" "[[OTHER ''1'']]" False demo_builder "[OTHER ''1'']" 2
        demo_builder "[]"]
    missing_rows_and_row_arity [OF demo_collection_text,
      of DOCUMENT "[]" "[[]]" False demo_builder "[]" 0 demo_builder "[]"]
  by (simp add: demo_insert_def)

text \<open>
  Claim C7 as stated fails: a document request with a projection and no rows is refused
  with \<open>BadProjection\<close>, not \<open>MissingRows\<close>.
\<close>

theorem missing_rows_counterexample:
  "fst (build demo_env (demo_insert DOCUMENT [Column ''a''] [] False) demo_builder)
     = Inl BadProjection \<and>
   fst (build demo_env (demo_insert DOCUMENT [Column ''a''] [] False) demo_builder)
     \<noteq> Inl MissingRows"
  by (simp add: builder_defs action_defs demo_defs demo_insert_def)

subsection \<open>Upsert\<close>

lemma seq_assoc: "seq (seq m k) l = seq m (seq k l)"
  by (rule ext) (simp add: seq_apply split: prod.splits sum.splits)

lemma build_body_then_upsert:
  "build env msg =
     seq (build_body env msg)
       (if upsert msg then add_upsert env (data_model msg = TABLE) else returns ())"
  by (simp add: build_def build_body_def is_table_data_model_def Let_def seq_assoc)

lemma build_body_upsert_free [simp]: "build_body env (msg\<lparr>upsert := u\<rparr>) = build_body env msg"
  by (simp add: build_body_def)

lemma build_without_upsert:
  assumes "build env (msg\<lparr>upsert := False\<rparr>) b = (Inr (), b1)"
  shows "build_body env msg b = (Inr (), b1)"
proof -
  obtain r b2 where body: "build_body env msg b = (r, b2)" by (cases "build_body env msg b")
  with assms show ?thesis
    by (cases r) (simp_all add: build_body_then_upsert seq_apply returns_def)
qed

text \<open>
  Claim C6, as amended. For a request with upsert set whose statement is assembled up to
  the end of the values list without error (the same request without upsert builds
  successfully): in the relational model \<open>build\<close> fails with
  \<open>UpsertNotSupported\<close>; in the document model its output is the output of the
  request without upsert followed by the conflict clause, once. The clause depends on no
  part of the request.
\<close>

theorem upsert_after_values:
  assumes "upsert msg" and "build env (msg\<lparr>upsert := False\<rparr>) b = (Inr (), b1)"
  shows "(data_model msg = TABLE \<longrightarrow> build env msg b = (Inl UpsertNotSupported, b1)) \<and>
    (data_model msg = DOCUMENT \<longrightarrow>
       build env msg b = (Inr (), b1\<lparr>m_qb := m_qb b1 @ upsert_clause env\<rparr>))"
  using assms(1) build_without_upsert [OF assms(2)]
  by (simp add: build_body_then_upsert seq_apply add_upsert_def throw_def put_def)

theorem upsert_after_values_witness:
  "build demo_env (demo_insert TABLE [] [[OTHER ''1'']] True) demo_builder =
     (Inl UpsertNotSupported, demo_builder\<lparr>m_qb := ''INSERT INTO `s`.`c` VALUES (1)''\<rparr>) \<and>
   build demo_env (demo_insert DOCUMENT [] [[OBJECT [(''_id'', OTHER ''1'')]]] True) demo_builder =
     (Inr (), demo_builder\<lparr>m_qb :=
        ''INSERT INTO `s`.`c` (doc) VALUES (JSON_OBJECT('_id',1))'' @ upsert_clause demo_env\<rparr>)"
proof -
  have t: "build demo_env ((demo_insert TABLE [] [[OTHER ''1'']] True)\<lparr>upsert := False\<rparr>)
      demo_builder = (Inr (), demo_builder\<lparr>m_qb := ''INSERT INTO `s`.`c` VALUES (1)''\<rparr>)"
    by (simp add: builder_defs action_defs demo_defs demo_insert_def)
  have d: "build demo_env
      ((demo_insert DOCUMENT [] [[OBJECT [(''_id'', OTHER ''1'')]]] True)\<lparr>upsert := False\<rparr>)
      demo_builder =
      (Inr (), demo_builder\<lparr>m_qb := ''INSERT INTO `s`.`c` (doc) VALUES (JSON_OBJECT('_id',1))''\<rparr>)"
    by (simp add: builder_defs action_defs demo_defs demo_insert_def)
  have u: "upsert (demo_insert dm p rows True)" for dm p rows
    by (simp add: demo_insert_def)
  from upsert_after_values [OF u t] upsert_after_values [OF u d]
  show ?thesis by (simp add: demo_insert_def)
qed

text \<open>
  Claim C6 as stated fails: a relational request with upsert set and no rows is refused
  with \<open>MissingRows\<close>, since the rows are checked before the upsert flag.
\<close>

theorem upsert_relational_counterexample:
  "fst (build demo_env (demo_insert TABLE [] [] True) demo_builder) = Inl MissingRows \<and>
   fst (build demo_env (demo_insert TABLE [] [] True) demo_builder) \<noteq> Inl UpsertNotSupported"
  by (simp add: builder_defs action_defs demo_defs demo_insert_def)

subsection \<open>Relational statements\<close>

text \<open>
  Claim C8, as amended. For a relational request with a projection, with rows whose field
  counts all equal the projection length, and with upsert not set, where the generator
  renders the collection and every field: \<open>build\<close> succeeds and appends exactly
  \<^verbatim>\<open>INSERT INTO\<close>, the collection, the comma-joined identifiers in parentheses,
  \<^verbatim>\<open>VALUES\<close> and the comma-joined parenthesized rows.
\<close>

theorem relational_statement:
  assumes "data_model msg = TABLE" and "projection msg \<noteq> []" and "row msg \<noteq> []"
    and "\<forall>r \<in> set (row msg). length r = length (projection msg)"
    and "\<not> upsert msg"
    and "collection_text env (collection msg) = Inr c"
    and "fields_render env (m_args b) (row msg)"
  shows "build env msg b =
     (Inr (), b\<lparr>m_qb := m_qb b @ ''INSERT INTO '' @ c @
        '' ('' @ comma_joined (map (\<lambda>c. identifier_text env (column_name c)) (projection msg)) @
        '')'' @ '' VALUES '' @ comma_joined (map (row_text env (m_args b)) (row msg))\<rparr>)"
proof -
  have "\<forall>r \<in> set (row msg). r \<noteq> [] \<and> (projection msg = [] \<or> length r = length (projection msg))"
    using assms(2,4) by auto
  from relational_build [OF assms(1,3) this assms(5,6,7)] assms(2)
  show ?thesis by simp
qed

theorem relational_statement_witness:
  "build demo_env (demo_insert TABLE [Column ''a'', Column ''b'']
       [[OTHER ''1'', LITERAL (V_STRING ''x'')], [PLACEHOLDER 0, OTHER ''2'']] False) demo_builder =
     (Inr (), demo_builder\<lparr>m_qb := ''INSERT INTO `s`.`c` (`a`,`b`) VALUES (1,'x'),(7,2)''\<rparr>)"
proof -
  let ?msg = "demo_insert TABLE [Column ''a'', Column ''b'']
       [[OTHER ''1'', LITERAL (V_STRING ''x'')], [PLACEHOLDER 0, OTHER ''2'']] False"
  have "build demo_env ?msg demo_builder =
     (Inr (), demo_builder\<lparr>m_qb := m_qb demo_builder @ ''INSERT INTO '' @ ''`s`.`c`'' @
        '' ('' @ comma_joined (map (\<lambda>c. identifier_text demo_env (column_name c)) (projection ?msg)) @
        '')'' @ '' VALUES '' @ comma_joined (map (row_text demo_env (m_args demo_builder)) (row ?msg))\<rparr>)"
    by (rule relational_statement)
       (simp_all add: demo_insert_def demo_defs fields_render_def)
  then show ?thesis
    by (simp add: demo_insert_def demo_defs row_text_def field_text_def)
qed

text \<open>
  Claim C8 as stated fails: with upsert set, a relational request whose rows match its
  projection is refused with \<open>UpsertNotSupported\<close>.
\<close>

theorem relational_statement_counterexample:
  "fst (build demo_env (demo_insert TABLE [Column ''a''] [[OTHER ''1'']] True) demo_builder)
     = Inl UpsertNotSupported \<and>
   fst (build demo_env (demo_insert TABLE [Column ''a''] [[OTHER ''1'']] True) demo_builder)
     \<noteq> Inr ()"
  by (simp add: builder_defs action_defs demo_defs demo_insert_def)

text \<open>
  Claim C10, as amended. For a relational request with no projection, with rows that are
  all non-empty, and with upsert not set, where the generator renders the collection and
  every field: \<open>build\<close> succeeds, whatever the field counts of the rows are. No
  arity is compared across rows.
\<close>

theorem rows_of_any_arity_without_projection:
  assumes "data_model msg = TABLE" and "projection msg = []" and "row msg \<noteq> []"
    and "\<forall>r \<in> set (row msg). r \<noteq> []"
    and "\<not> upsert msg"
    and "collection_text env (collection msg) = Inr c"
    and "fields_render env (m_args b) (row msg)"
  shows "build env msg b =
     (Inr (), b\<lparr>m_qb := m_qb b @ ''INSERT INTO '' @ c @
        '' VALUES '' @ comma_joined (map (row_text env (m_args b)) (row msg))\<rparr>)"
proof -
  have "\<forall>r \<in> set (row msg). r \<noteq> [] \<and> (projection msg = [] \<or> length r = length (projection msg))"
    using assms(2,4) by auto
  from relational_build [OF assms(1,3) this assms(5,6,7)] assms(2)
  show ?thesis by simp
qed

theorem rows_of_any_arity_without_projection_witness:
  "build demo_env (demo_insert TABLE []
       [[OTHER ''1''], [LITERAL (V_STRING ''x''), OTHER ''2'', PLACEHOLDER 0]] False) demo_builder =
     (Inr (), demo_builder\<lparr>m_qb := ''INSERT INTO `s`.`c` VALUES (1),('x',2,7)''\<rparr>)"
proof -
  let ?msg = "demo_insert TABLE []
       [[OTHER ''1''], [LITERAL (V_STRING ''x''), OTHER ''2'', PLACEHOLDER 0]] False"
  have "build demo_env ?msg demo_builder =
     (Inr (), demo_builder\<lparr>m_qb := m_qb demo_builder @ ''INSERT INTO '' @ ''`s`.`c`'' @
        '' VALUES '' @ comma_joined (map (row_text demo_env (m_args demo_builder)) (row ?msg))\<rparr>)"
    by (rule rows_of_any_arity_without_projection)
       (simp_all add: demo_insert_def demo_defs fields_render_def)
  then show ?thesis
    by (simp add: demo_insert_def demo_defs row_text_def field_text_def)
qed

text \<open>
  Claim C10 as stated fails: with upsert set, a relational request with no projection and
  non-empty rows is refused with \<open>UpsertNotSupported\<close>.
\<close>

theorem rows_of_any_arity_counterexample:
  "fst (build demo_env (demo_insert TABLE [] [[OTHER ''1''], [OTHER ''2'', OTHER ''3'']] True)
     demo_builder) = Inl UpsertNotSupported \<and>
   fst (build demo_env (demo_insert TABLE [] [[OTHER ''1''], [OTHER ''2'', OTHER ''3'']] True)
     demo_builder) \<noteq> Inr ()"
  by (simp add: builder_defs action_defs demo_defs demo_insert_def)

subsection \<open>Document rows and their identity\<close>

lemma builder_eqI:
  fixes x y :: "'g builder"
  assumes "m_qb x = m_qb y" and "m_args x = m_args y"
    and "m_base_id_generator x = m_base_id_generator y"
    and "m_variables x = m_variables y" and "m_document_ids x = m_document_ids y"
  shows "x = y"
  using assms by (cases x, cases y) simp

lemma action_resultI:
  fixes R :: "'g builder"
  assumes "fst (m b) = r" and "m_qb (snd (m b)) = m_qb R" and "m_args (snd (m b)) = m_args R"
    and "m_base_id_generator (snd (m b)) = m_base_id_generator R"
    and "m_variables (snd (m b)) = m_variables R"
    and "m_document_ids (snd (m b)) = m_document_ids R"
  shows "m b = (r, R)"
proof -
  have "snd (m b) = R"
    using assms(2-6) by (rule builder_eqI)
  with assms(1) show ?thesis by (simp add: prod_eq_iff)
qed

lemma add_document_literal_synthesizes:
  assumes "generate env (m_variables b) (m_base_id_generator b) = (ident, g)"
    and "accepted_literal env a" and "\<not> literal_has_id env a"
  shows "add_document_literal env a b =
     (Inr True, b\<lparr>m_qb := m_qb b @ ''(JSON_SET('' @ quote_text env (literal_value a) @
          '', '$._id', '' @ quote_text env ident @ ''))'',
        m_base_id_generator := g, m_document_ids := m_document_ids b @ [ident]\<rparr>)"
proof (cases a)
  case (V_OCTETS v ct)
  with assms show ?thesis
    by (intro action_resultI)
       (auto simp add: add_document_literal_def seq_apply put_def put_quote_def returns_def
          generate_id_def add_id_def Let_def)
next
  case (V_STRING v)
  with assms show ?thesis
    by (intro action_resultI)
       (auto simp add: add_document_literal_def seq_apply put_def put_quote_def returns_def
          generate_id_def add_id_def Let_def)
next
  case (V_OTHER s)
  with assms(2) show ?thesis by simp
qed

lemma add_document_literal_octets_kept:
  assumes "ct = CT_PLAIN env \<or> ct = CT_JSON env" and "is_id_in_json env v"
  shows "add_document_literal env (V_OCTETS v ct) b =
     (Inr True, b\<lparr>m_qb := m_qb b @ ''('' @ quote_text env v @ '')''\<rparr>)"
  using assms
  by (auto simp add: add_document_literal_def seq_apply put_def put_quote_def returns_def)

lemma add_document_literal_string_kept:
  assumes "is_id_in_json env v"
  shows "add_document_literal env (V_STRING v) b =
     (case scalar_text env (V_STRING v) of
        Inl e \<Rightarrow> (Inl e, b\<lparr>m_qb := m_qb b @ ''(''\<rparr>)
      | Inr t \<Rightarrow> (Inr True, b\<lparr>m_qb := m_qb b @ ''('' @ t @ '')''\<rparr>))"
  using assms
  by (auto simp add: add_document_literal_def seq_apply put_def put_expr_scalar_def put_text_def
      returns_def throw_def split: sum.splits)

lemma add_document_literal_rejects:
  assumes "\<not> accepted_literal env a"
  shows "add_document_literal env a b = (Inr False, b)"
  using assms by (cases a) (auto simp add: add_document_literal_def returns_def)

lemma add_document_object_kept:
  assumes "is_id_in_object obj"
  shows "add_document_object env obj b =
     (case object_text env (m_args b) obj of
        Inl e \<Rightarrow> (Inl e, b\<lparr>m_qb := m_qb b @ ''(''\<rparr>)
      | Inr t \<Rightarrow> (Inr (), b\<lparr>m_qb := m_qb b @ ''('' @ t @ '')''\<rparr>))"
  using assms
  by (auto simp add: add_document_object_def seq_apply put_def put_expr_object_def put_text_def
      throw_def split: sum.splits)

lemma add_document_object_synthesizes:
  assumes "generate env (m_variables b) (m_base_id_generator b) = (ident, g)"
    and "\<not> is_id_in_object obj" and "object_text env (m_args b) obj = Inr t"
  shows "add_document_object env obj b =
     (Inr (), b\<lparr>m_qb := m_qb b @ ''(JSON_SET('' @ t @ '', '$._id', '' @ quote_text env ident @ ''))'',
        m_base_id_generator := g, m_document_ids := m_document_ids b @ [ident]\<rparr>)"
  using assms
  by (intro action_resultI)
     (auto simp add: add_document_object_def seq_apply put_def put_quote_def put_expr_object_def
        put_text_def generate_id_def add_id_def Let_def)

lemma add_document_object_fails:
  assumes "\<not> is_id_in_object obj" and "object_text env (m_args b) obj = Inl e"
  shows "add_document_object env obj b = (Inl e, b\<lparr>m_qb := m_qb b @ ''(JSON_SET(''\<rparr>)"
  using assms
  by (simp add: add_document_object_def seq_apply put_def put_expr_object_def put_text_def throw_def)

lemma add_document_single:
  "add_document env [doc] b =
     (case doc of
        LITERAL lit \<Rightarrow>
          and_then (add_document_literal env lit)
            (\<lambda>handled. if handled then returns () else put_document_expr env doc) b
      | PLACEHOLDER pos \<Rightarrow>
          and_then (add_document_placeholder env pos)
            (\<lambda>handled. if handled then returns () else put_document_expr env doc) b
      | OBJECT obj \<Rightarrow> add_document_object env obj b
      | OTHER x \<Rightarrow> put_document_expr env doc b)"
  by (simp add: add_document_def split: expr.splits)

lemma put_document_expr_result:
  "put_document_expr env doc b =
     (case expr_text env (m_args b) doc of
        Inl e \<Rightarrow> (Inl e, b\<lparr>m_qb := m_qb b @ ''(''\<rparr>)
      | Inr t \<Rightarrow> (Inr (), b\<lparr>m_qb := m_qb b @ ''('' @ t @ '')''\<rparr>))"
  by (simp add: put_document_expr_def seq_apply put_def put_expr_def put_text_def throw_def
      split: sum.splits)

text \<open>
  Claim C3. Let one call of the id generator in the current state give \<open>ident\<close> and
  the next generator state \<open>g\<close>. A document row whose value lacks an id, being
  octets of plain or JSON content, a string, or an object that the generator renders as
  \<open>t\<close>, is rendered as \<^verbatim>\<open>(JSON_SET(\<close>, the quoted value (for an object: \<open>t\<close>),
  \<^verbatim>\<open>, '$._id', \<close>, the quoted \<open>ident\<close> and \<^verbatim>\<open>))\<close>. The generator has advanced
  by exactly that one call and exactly \<open>ident\<close> has been appended to the document
  ids.
\<close>

theorem id_synthesized_once:
  assumes "generate env (m_variables b) (m_base_id_generator b) = (ident, g)"
  shows "((ct = CT_PLAIN env \<or> ct = CT_JSON env) \<and> \<not> is_id_in_json env v \<longrightarrow>
       add_document env [LITERAL (V_OCTETS v ct)] b =
         (Inr (), b\<lparr>m_qb := m_qb b @ ''(JSON_SET('' @ quote_text env v @ '', '$._id', '' @
              quote_text env ident @ ''))'',
            m_base_id_generator := g, m_document_ids := m_document_ids b @ [ident]\<rparr>)) \<and>
    (\<not> is_id_in_json env v \<longrightarrow>
       add_document env [LITERAL (V_STRING v)] b =
         (Inr (), b\<lparr>m_qb := m_qb b @ ''(JSON_SET('' @ quote_text env v @ '', '$._id', '' @
              quote_text env ident @ ''))'',
            m_base_id_generator := g, m_document_ids := m_document_ids b @ [ident]\<rparr>)) \<and>
    (\<not> is_id_in_object obj \<and> object_text env (m_args b) obj = Inr t \<longrightarrow>
       add_document env [OBJECT obj] b =
         (Inr (), b\<lparr>m_qb := m_qb b @ ''(JSON_SET('' @ t @ '', '$._id', '' @
              quote_text env ident @ ''))'',
            m_base_id_generator := g, m_document_ids := m_document_ids b @ [ident]\<rparr>))"
proof (intro conjI impI)
  assume "(ct = CT_PLAIN env \<or> ct = CT_JSON env) \<and> \<not> is_id_in_json env v"
  then have "accepted_literal env (V_OCTETS v ct)" "\<not> literal_has_id env (V_OCTETS v ct)"
    by simp_all
  from add_document_literal_synthesizes [OF assms this]
  show "add_document env [LITERAL (V_OCTETS v ct)] b =
         (Inr (), b\<lparr>m_qb := m_qb b @ ''(JSON_SET('' @ quote_text env v @ '', '$._id', '' @
              quote_text env ident @ ''))'',
            m_base_id_generator := g, m_document_ids := m_document_ids b @ [ident]\<rparr>)"
    by (simp add: add_document_single and_then_def returns_def)
next
  assume "\<not> is_id_in_json env v"
  then have "accepted_literal env (V_STRING v)" "\<not> literal_has_id env (V_STRING v)"
    by simp_all
  from add_document_literal_synthesizes [OF assms this]
  show "add_document env [LITERAL (V_STRING v)] b =
         (Inr (), b\<lparr>m_qb := m_qb b @ ''(JSON_SET('' @ quote_text env v @ '', '$._id', '' @
              quote_text env ident @ ''))'',
            m_base_id_generator := g, m_document_ids := m_document_ids b @ [ident]\<rparr>)"
    by (simp add: add_document_single and_then_def returns_def)
next
  assume "\<not> is_id_in_object obj \<and> object_text env (m_args b) obj = Inr t"
  then show "add_document env [OBJECT obj] b =
         (Inr (), b\<lparr>m_qb := m_qb b @ ''(JSON_SET('' @ t @ '', '$._id', '' @
              quote_text env ident @ ''))'',
            m_base_id_generator := g, m_document_ids := m_document_ids b @ [ident]\<rparr>)"
    using add_document_object_synthesizes [OF assms, of obj t]
    by (simp add: add_document_single)
qed

theorem id_synthesized_once_witness:
  "add_document demo_env [LITERAL (V_OCTETS ''{a:1}'' 2)] demo_builder =
     (Inr (), demo_builder\<lparr>m_qb := ''(JSON_SET('{a:1}', '$._id', 'id*'))'',
        m_base_id_generator := 1, m_document_ids := [''id*'']\<rparr>) \<and>
   add_document demo_env [LITERAL (V_STRING ''{a:1}'')] demo_builder =
     (Inr (), demo_builder\<lparr>m_qb := ''(JSON_SET('{a:1}', '$._id', 'id*'))'',
        m_base_id_generator := 1, m_document_ids := [''id*'']\<rparr>) \<and>
   add_document demo_env [OBJECT [(''a'', OTHER ''1'')]] demo_builder =
     (Inr (), demo_builder\<lparr>m_qb := ''(JSON_SET(JSON_OBJECT('a',1), '$._id', 'id*'))'',
        m_base_id_generator := 1, m_document_ids := [''id*'']\<rparr>)"
proof -
  have gen: "generate demo_env (m_variables demo_builder) (m_base_id_generator demo_builder)
      = (''id*'', 1)"
    by (simp add: demo_defs)
  from id_synthesized_once [OF gen, of 2 "''{a:1}''" "[(''a'', OTHER ''1'')]" "''JSON_OBJECT('a',1)''"]
  show ?thesis
    by (simp add: demo_defs)
qed

text \<open>
  Claim C4, as amended. A document row whose value already has an id is rendered in
  parentheses with no \<^verbatim>\<open>JSON_SET\<close> around it: octets of plain or JSON content as
  the quoted string literal of the value, a string and an object as the generator
  renders them. Nothing but the query string changes: the id generator is not called and
  the document ids are not extended.
\<close>

theorem present_id_kept:
  "((ct = CT_PLAIN env \<or> ct = CT_JSON env) \<and> is_id_in_json env v \<longrightarrow>
       add_document env [LITERAL (V_OCTETS v ct)] b =
         (Inr (), b\<lparr>m_qb := m_qb b @ ''('' @ quote_text env v @ '')''\<rparr>)) \<and>
    (is_id_in_json env v \<and> scalar_text env (V_STRING v) = Inr t \<longrightarrow>
       add_document env [LITERAL (V_STRING v)] b =
         (Inr (), b\<lparr>m_qb := m_qb b @ ''('' @ t @ '')''\<rparr>)) \<and>
    (is_id_in_object obj \<and> object_text env (m_args b) obj = Inr u \<longrightarrow>
       add_document env [OBJECT obj] b =
         (Inr (), b\<lparr>m_qb := m_qb b @ ''('' @ u @ '')''\<rparr>))"
  by (simp add: add_document_single and_then_def returns_def add_document_literal_octets_kept
      add_document_literal_string_kept add_document_object_kept)

theorem present_id_kept_witness:
  "add_document demo_env [LITERAL (V_OCTETS ''{_id:1}'' 0)] demo_builder =
     (Inr (), demo_builder\<lparr>m_qb := ''('{_id:1}')''\<rparr>) \<and>
   add_document demo_env [LITERAL (V_STRING ''{_id:1}'')] demo_builder =
     (Inr (), demo_builder\<lparr>m_qb := ''('{_id:1}')''\<rparr>) \<and>
   add_document demo_env [OBJECT [(''_id'', OTHER ''1'')]] demo_builder =
     (Inr (), demo_builder\<lparr>m_qb := ''(JSON_OBJECT('_id',1))''\<rparr>)"
  using present_id_kept [of 0 demo_env "''{_id:1}''" demo_builder "demo_quote ''{_id:1}''"
      "[(''_id'', OTHER ''1'')]" "''JSON_OBJECT('' @ demo_quote ''_id'' @ '',1)''"]
  by (simp add: demo_defs)

text \<open>
  Claim C4 as stated fails: the value is not emitted byte for byte. Octets that carry an
  id go through \<open>put_quote\<close>, so the row is the quoted literal in parentheses, not
  the input in parentheses.
\<close>

theorem present_id_kept_counterexample:
  "add_document demo_env [LITERAL (V_OCTETS ''{_id:1}'' 2)] demo_builder =
     (Inr (), demo_builder\<lparr>m_qb := ''('{_id:1}')''\<rparr>) \<and>
   m_qb (snd (add_document demo_env [LITERAL (V_OCTETS ''{_id:1}'' 2)] demo_builder)) \<noteq>
     m_qb demo_builder @ ''('' @ ''{_id:1}'' @ '')''"
  by (simp add: builder_defs action_defs demo_defs)

lemma add_document_literal_outcome:
  assumes "add_document_literal env a b = (Inr h, b')"
  shows "(\<not> accepted_literal env a \<longrightarrow> \<not> h \<and> b' = b) \<and>
    (accepted_literal env a \<and> literal_has_id env a \<longrightarrow>
       h \<and> (\<exists>t. literal_kept_text env a = Inr t \<and> b' = parenthesized_row b t)) \<and>
    (accepted_literal env a \<and> \<not> literal_has_id env a \<longrightarrow>
       h \<and> b' = json_set_row env b (quote_text env (literal_value a)))"
proof -
  have c1: "\<not> h \<and> b' = b" if "\<not> accepted_literal env a"
    using add_document_literal_rejects [OF that, of b] assms by simp
  have c2: "h \<and> (\<exists>t. literal_kept_text env a = Inr t \<and> b' = parenthesized_row b t)"
    if acc: "accepted_literal env a \<and> literal_has_id env a"
  proof (cases a)
    case (V_OCTETS v ct)
    with acc assms add_document_literal_octets_kept [of ct env v b] show ?thesis
      by (auto simp: parenthesized_row_def)
  next
    case (V_STRING v)
    with acc assms add_document_literal_string_kept [of env v b] show ?thesis
      by (cases "scalar_text env (V_STRING v)") (auto simp: parenthesized_row_def)
  next
    case (V_OTHER s)
    with acc show ?thesis by simp
  qed
  have c3: "h \<and> b' = json_set_row env b (quote_text env (literal_value a))"
    if acc: "accepted_literal env a \<and> \<not> literal_has_id env a"
  proof -
    obtain ident g where "generate env (m_variables b) (m_base_id_generator b) = (ident, g)"
      by (cases "generate env (m_variables b) (m_base_id_generator b)")
    from add_document_literal_synthesizes [OF this, of a] acc assms this
    show ?thesis by (simp add: json_set_row_def)
  qed
  from c1 c2 c3 show ?thesis by blast
qed

lemma handled_or_generic:
  assumes "and_then m (\<lambda>handled. if handled then returns () else put_document_expr env doc) b
      = (Inr (), b')"
  shows "\<exists>h b1. m b = (Inr h, b1) \<and> (if h then b' = b1 else put_document_expr env doc b1 = (Inr (), b'))"
proof -
  obtain r b1 where mb: "m b = (r, b1)" by (cases "m b")
  with assms show ?thesis
    by (cases r) (auto simp: and_then_def returns_def)
qed

lemma put_document_expr_success:
  assumes "put_document_expr env doc b = (Inr (), b')"
  shows "\<exists>t. expr_text env (m_args b) doc = Inr t \<and> b' = parenthesized_row b t"
  using assms
  by (cases "expr_text env (m_args b) doc")
     (auto simp: put_document_expr_result parenthesized_row_def)

lemma literal_row_identity:
  assumes "and_then (add_document_literal env a)
      (\<lambda>handled. if handled then returns () else put_document_expr env doc) b = (Inr (), b')"
  shows "(accepted_literal env a \<and> literal_has_id env a \<longrightarrow>
       (\<exists>t. literal_kept_text env a = Inr t \<and> b' = parenthesized_row b t)) \<and>
    (accepted_literal env a \<and> \<not> literal_has_id env a \<longrightarrow>
       b' = json_set_row env b (quote_text env (literal_value a))) \<and>
    (\<not> accepted_literal env a \<longrightarrow>
       (\<exists>t. expr_text env (m_args b) doc = Inr t \<and> b' = parenthesized_row b t))"
proof -
  from handled_or_generic [OF assms] obtain h b1 where
    lit: "add_document_literal env a b = (Inr h, b1)" and
    rest: "if h then b' = b1 else put_document_expr env doc b1 = (Inr (), b')"
    by blast
  note out = add_document_literal_outcome [OF lit]
  show ?thesis
  proof (cases "accepted_literal env a")
    case True
    with out rest show ?thesis by (cases "literal_has_id env a") auto
  next
    case False
    with out have "\<not> h" "b1 = b" by simp_all
    with rest have "put_document_expr env doc b = (Inr (), b')" by simp
    from put_document_expr_success [OF this] False show ?thesis by simp
  qed
qed

lemma document_row_identity:
  assumes "add_document env [doc] b = (Inr (), b')"
  shows "(identity_path env (m_args b) doc \<and> value_has_id env (m_args b) doc \<longrightarrow>
       (\<exists>t. kept_text env (m_args b) doc = Inr t \<and> b' = parenthesized_row b t)) \<and>
    (identity_path env (m_args b) doc \<and> \<not> value_has_id env (m_args b) doc \<longrightarrow>
       (\<exists>t. set_text env (m_args b) doc = Inr t \<and> b' = json_set_row env b t)) \<and>
    (\<not> identity_path env (m_args b) doc \<longrightarrow>
       (\<exists>t. expr_text env (m_args b) doc = Inr t \<and> b' = parenthesized_row b t))"
proof (cases doc)
  case (LITERAL a)
  from assms have "and_then (add_document_literal env a)
      (\<lambda>handled. if handled then returns () else put_document_expr env doc) b = (Inr (), b')"
    unfolding LITERAL by (simp add: add_document_single)
  from literal_row_identity [OF this] LITERAL show ?thesis by simp
next
  case (PLACEHOLDER p)
  from assms have run: "and_then (add_document_placeholder env p)
      (\<lambda>handled. if handled then returns () else put_document_expr env doc) b = (Inr (), b')"
    unfolding PLACEHOLDER by (simp add: add_document_single)
  show ?thesis
  proof (cases "p < word_of_nat (length (m_args b))")
    case True
    then have "add_document_placeholder env p b = add_document_literal env (m_args b ! unat p) b"
      by (simp add: add_document_placeholder_def)
    with run have "and_then (add_document_literal env (m_args b ! unat p))
      (\<lambda>handled. if handled then returns () else put_document_expr env doc) b = (Inr (), b')"
      by (simp add: and_then_def)
    from literal_row_identity [OF this] PLACEHOLDER True show ?thesis by simp
  next
    case False
    then have "add_document_placeholder env p b = (Inr False, b)"
      by (simp add: add_document_placeholder_def returns_def)
    with run have "put_document_expr env doc b = (Inr (), b')"
      by (simp add: and_then_def)
    from put_document_expr_success [OF this] PLACEHOLDER False show ?thesis by simp
  qed
next
  case (OBJECT obj)
  with assms have run: "add_document_object env obj b = (Inr (), b')"
    by (simp add: add_document_single)
  show ?thesis
  proof (cases "is_id_in_object obj")
    case True
    with run add_document_object_kept [of obj env b] OBJECT show ?thesis
      by (cases "object_text env (m_args b) obj") (auto simp: parenthesized_row_def)
  next
    case False
    obtain ident g where gen: "generate env (m_variables b) (m_base_id_generator b) = (ident, g)"
      by (cases "generate env (m_variables b) (m_base_id_generator b)")
    show ?thesis
    proof (cases "object_text env (m_args b) obj")
      case (Inl e)
      with run add_document_object_fails [OF False Inl] show ?thesis by simp
    next
      case (Inr t)
      with run add_document_object_synthesizes [OF gen False Inr] OBJECT False gen show ?thesis
        by (simp add: json_set_row_def)
    qed
  qed
next
  case (OTHER x)
  from assms have "put_document_expr env doc b = (Inr (), b')"
    unfolding OTHER by (simp add: add_document_single)
  from put_document_expr_success [OF this] OTHER show ?thesis by simp
qed

lemma appends_extends: "appends m \<Longrightarrow> m b = (r, b') \<Longrightarrow> extends b b'"
  unfolding appends_def by (metis snd_conv)

lemma seq_success:
  assumes "seq m k b = (Inr a, b')"
  shows "\<exists>b1. m b = (Inr (), b1) \<and> k b1 = (Inr a, b')"
proof -
  obtain r b1 where mb: "m b = (r, b1)" by (cases "m b")
  with assms show ?thesis by (cases r) (auto simp: seq_apply)
qed

lemma put_rest_each:
  assumes "\<And>y. appends (f y)" and "put_rest f xs b = (Inr (), b')" and "x \<in> set xs"
  shows "\<exists>s s'. f x s = (Inr (), s') \<and> extends b s \<and> extends s' b'"
  using assms(2,3)
proof (induction xs arbitrary: b)
  case Nil
  then show ?case by simp
next
  case (Cons y ys)
  let ?b1 = "b\<lparr>m_qb := m_qb b @ '',''\<rparr>"
  from Cons.prems(1) have "seq (f y) (put_rest f ys) ?b1 = (Inr (), b')"
    by (simp add: seq_apply put_def)
  from seq_success [OF this] obtain b2 where
    fy: "f y ?b1 = (Inr (), b2)" and rest: "put_rest f ys b2 = (Inr (), b')"
    by blast
  have e1: "extends b ?b1" by simp
  have e2: "extends ?b1 b2" using assms(1) fy by (rule appends_extends)
  have e3: "extends b2 b'" using appends_put_rest [of f ys, OF assms(1)] rest
    by (rule appends_extends)
  show ?case
  proof (cases "x = y")
    case True
    with fy e1 e3 show ?thesis by blast
  next
    case False
    with Cons.prems(2) have "x \<in> set ys" by simp
    from Cons.IH [OF rest this] obtain s s' where
      "f x s = (Inr (), s')" "extends b2 s" "extends s' b'" by blast
    moreover from e1 e2 have "extends b b2" by (rule extends_trans)
    ultimately show ?thesis by (blast intro: extends_trans)
  qed
qed

lemma put_list_each:
  assumes "\<And>y. appends (f y)" and "put_list f xs b = (Inr (), b')" and "x \<in> set xs"
  shows "\<exists>s s'. f x s = (Inr (), s') \<and> extends b s \<and> extends s' b'"
proof (cases xs)
  case Nil
  with assms(3) show ?thesis by simp
next
  case (Cons y ys)
  with assms(2) have "seq (f y) (put_rest f ys) b = (Inr (), b')" by simp
  from seq_success [OF this] obtain b2 where
    fy: "f y b = (Inr (), b2)" and rest: "put_rest f ys b2 = (Inr (), b')"
    by blast
  have e2: "extends b b2" using assms(1) fy by (rule appends_extends)
  have e3: "extends b2 b'" using appends_put_rest [of f ys, OF assms(1)] rest
    by (rule appends_extends)
  show ?thesis
  proof (cases "x = y")
    case True
    with fy e3 show ?thesis by (blast intro: extends_refl)
  next
    case False
    with assms(3) Cons have "x \<in> set ys" by simp
    from put_rest_each [of f ys b2 b' x, OF assms(1) rest this] e2
    show ?thesis by (blast intro: extends_trans)
  qed
qed

lemma document_build_rows:
  assumes "data_model msg = DOCUMENT" and "build env msg b = (Inr (), b')"
    and "r \<in> set (row msg)"
  shows "\<exists>s s'. add_document env r s = (Inr (), s') \<and> extends b s \<and> extends s' b'"
proof -
  from assms(2) have "seq (build_body env msg)
       (if upsert msg then add_upsert env (data_model msg = TABLE) else returns ()) b = (Inr (), b')"
    by (simp add: build_body_then_upsert)
  from seq_success [OF this] obtain b4 where
    body: "build_body env msg b = (Inr (), b4)" and
    ups: "(if upsert msg then add_upsert env (data_model msg = TABLE) else returns ()) b4 = (Inr (), b')"
    by blast
  have "appends (if upsert msg then add_upsert env (data_model msg = TABLE) else returns ())"
    by simp
  from this ups have e4: "extends b4 b'" by (rule appends_extends)
  let ?b0 = "b\<lparr>m_qb := m_qb b @ ''INSERT INTO ''\<rparr>"
  from body assms(1) have "seq (add_collection env (collection msg))
          (seq (add_projection env (projection msg) False) (add_documents env (row msg))) ?b0
      = (Inr (), b4)"
    by (simp add: build_body_def seq_apply put_def)
  from seq_success [OF this] obtain b1 where
    col: "add_collection env (collection msg) ?b0 = (Inr (), b1)" and
    r1: "seq (add_projection env (projection msg) False) (add_documents env (row msg)) b1 = (Inr (), b4)"
    by blast
  from seq_success [OF r1] obtain b2 where
    proj: "add_projection env (projection msg) False b1 = (Inr (), b2)" and
    docs: "add_documents env (row msg) b2 = (Inr (), b4)"
    by blast
  have e0: "extends b ?b0" by simp
  have e1: "extends ?b0 b1" using appends_add_collection col by (rule appends_extends)
  have e2: "extends b1 b2" using appends_add_projection proj by (rule appends_extends)
  let ?b3 = "b2\<lparr>m_qb := m_qb b2 @ '' VALUES ''\<rparr>"
  from docs have list: "put_list (add_document env) (row msg) ?b3 = (Inr (), b4)"
    by (cases "row msg = []") (simp_all add: add_documents_def throw_def seq_apply put_def)
  have e3: "extends b2 ?b3" by simp
  from put_list_each [of "add_document env" "row msg" ?b3 b4 r, OF _ list assms(3)]
  obtain s s' where s: "add_document env r s = (Inr (), s')" "extends ?b3 s" "extends s' b4"
    by auto
  from e0 e1 e2 e3 s(2) have "extends b s" by (blast intro: extends_trans)
  moreover from s(3) e4 have "extends s' b'" by (rule extends_trans)
  ultimately show ?thesis using s(1) by blast
qed

lemma add_document_success_single:
  assumes "add_document env r b = (Inr (), b')"
  shows "\<exists>doc. r = [doc]"
proof -
  from assms have "length r = 1"
    by (cases "length r = 1") (simp_all add: add_document_def throw_def)
  then show ?thesis by (cases r) auto
qed

text \<open>
  Claim C1, as amended. In a document request that \<open>build\<close> accepts, every row is a
  single field rendered by one call of \<open>add_document\<close>, in a state \<open>s\<close> reached
  from the entry state and leading to the final one. When the field takes the identity
  path (an accepted literal, a placeholder that resolves to one, or an object), the row
  carries an id. Either the value has one, and the call appends the value itself in
  parentheses (octets as their quoted literal, a string or an object as the generator
  renders it) and changes nothing else: no id is generated. Or it has none, and the call
  appends \<^verbatim>\<open>(JSON_SET(\<close>, the value, \<^verbatim>\<open>, '$._id', \<close>, the quoted new id and
  \<^verbatim>\<open>))\<close>, where the new id is what one call of the generator gives, and appends that
  id to the document ids. When the field does not take the identity path (any other
  expression, a literal of another kind, a placeholder that resolves to no accepted
  literal), the call appends the generic rendering of the field in parentheses and changes
  nothing else: no id is looked for and none is generated.
\<close>

theorem document_rows_identity:
  assumes "data_model msg = DOCUMENT" and "build env msg b = (Inr (), b')"
    and "r \<in> set (row msg)"
  shows "\<exists>doc s s'. r = [doc] \<and> add_document env r s = (Inr (), s') \<and>
    extends b s \<and> extends s' b' \<and>
    (identity_path env (m_args b) doc \<and> value_has_id env (m_args b) doc \<longrightarrow>
       (\<exists>t. kept_text env (m_args b) doc = Inr t \<and> s' = parenthesized_row s t)) \<and>
    (identity_path env (m_args b) doc \<and> \<not> value_has_id env (m_args b) doc \<longrightarrow>
       (\<exists>t. set_text env (m_args b) doc = Inr t \<and> s' = json_set_row env s t)) \<and>
    (\<not> identity_path env (m_args b) doc \<longrightarrow>
       (\<exists>t. expr_text env (m_args b) doc = Inr t \<and> s' = parenthesized_row s t))"
proof -
  from document_build_rows [OF assms] obtain s s' where
    run: "add_document env r s = (Inr (), s')" and e: "extends b s" "extends s' b'"
    by blast
  from add_document_success_single [OF run] obtain doc where r: "r = [doc]" by blast
  from e(1) have args: "m_args s = m_args b" by (simp add: extends_def)
  from run r have "add_document env [doc] s = (Inr (), s')" by simp
  from document_row_identity [OF this] args r run e show ?thesis
    by auto
qed

theorem document_rows_identity_witness:
  "(\<exists>s s'. add_document demo_env [LITERAL (V_STRING ''{a:1}'')] s = (Inr (), s') \<and>
     extends demo_builder s \<and>
     s' = json_set_row demo_env s (demo_quote ''{a:1}'')) \<and>
   (\<exists>s s'. add_document demo_env [LITERAL (V_OCTETS ''{_id:1}'' 2)] s = (Inr (), s') \<and>
     extends demo_builder s \<and>
     s' = parenthesized_row s (demo_quote ''{_id:1}'')) \<and>
   (\<exists>s s'. add_document demo_env [OTHER ''1+1''] s = (Inr (), s') \<and>
     extends demo_builder s \<and>
     s' = parenthesized_row s ''1+1'')"
proof -
  let ?msg = "demo_insert DOCUMENT []
      [[LITERAL (V_OCTETS ''{_id:1}'' 2)], [LITERAL (V_STRING ''{a:1}'')], [OTHER ''1+1'']] False"
  have dm: "data_model ?msg = DOCUMENT"
    by (simp add: demo_insert_def)
  have run: "build demo_env ?msg demo_builder =
     (Inr (), demo_builder\<lparr>m_qb := ''INSERT INTO `s`.`c` (doc) VALUES ('{_id:1}'),'' @
          ''(JSON_SET('{a:1}', '$._id', 'id*')),(1+1)'',
        m_base_id_generator := 1, m_document_ids := [''id*'']\<rparr>)"
    by (simp add: builder_defs action_defs demo_defs demo_insert_def)
  have m1: "[LITERAL (V_STRING ''{a:1}'')] \<in> set (row ?msg)"
    and m2: "[LITERAL (V_OCTETS ''{_id:1}'' 2)] \<in> set (row ?msg)"
    and m3: "[OTHER ''1+1''] \<in> set (row ?msg)"
    by (simp_all add: demo_insert_def)
  from document_rows_identity [OF dm run m1] document_rows_identity [OF dm run m2]
    document_rows_identity [OF dm run m3]
  show ?thesis
    by (auto simp add: demo_defs)
qed

text \<open>
  Claim C1 as stated fails: a document request whose rows are an expression of another
  kind and a placeholder bound to a number is accepted, no id is generated, and the
  statement text has no \<^verbatim>\<open>_id\<close> in it.
\<close>

theorem document_rows_identity_counterexample:
  "build demo_env (demo_insert DOCUMENT [] [[OTHER ''1+1''], [PLACEHOLDER 0]] False) demo_builder =
     (Inr (), demo_builder\<lparr>m_qb := ''INSERT INTO `s`.`c` (doc) VALUES (1+1),(7)''\<rparr>) \<and>
   \<not> demo_contains ''_id'' ''INSERT INTO `s`.`c` (doc) VALUES (1+1),(7)'' \<and>
   m_document_ids (snd (build demo_env
     (demo_insert DOCUMENT [] [[OTHER ''1+1''], [PLACEHOLDER 0]] False) demo_builder)) = []"
  by (simp add: builder_defs action_defs demo_defs demo_insert_def)

subsection \<open>Configuration fetch\<close>

lemma configue_session:
  "snd (snd (configue sql s b)) = snd (run_query sql configue_query s)"
  by (simp add: configue_def split: prod.splits sum.splits)

lemma configue_query_throws:
  assumes "run_query sql configue_query s = (Inl e, s')"
  shows "configue sql s b = (Inl e, b, s')"
  using assms by (simp add: configue_def)

lemma configue_wrong_row_count:
  assumes "run_query sql configue_query s = (Inr rows, s')" and "length rows \<noteq> 1"
  shows "configue sql s b = (Inl ConfigFetchFailed, b, s')"
  using assms by (simp add: configue_def)

lemma configue_get_throws:
  assumes "run_query sql configue_query s = (Inr [r], s')" and "get_variables sql r = Inl e"
  shows "configue sql s b = (Inl e, b, s')"
  using assms by (simp add: configue_def)

lemma configue_stores:
  assumes "run_query sql configue_query s = (Inr [r], s')"
    and "get_variables sql r = Inr (p, off, inc)"
  shows "configue sql s b =
     (Inr (), b\<lparr>m_variables := \<lparr>prefix = p, offset = off, increment = inc\<rparr>\<rparr>, s')"
  using assms by (simp add: configue_def)

lemma generate_id_after_configue:
  "generate_id env (b\<lparr>m_variables := v\<rparr>) =
     (case generate env v (m_base_id_generator b) of
        (ident, g) \<Rightarrow>
          (ident, b\<lparr>m_variables := v, m_base_id_generator := g,
                    m_document_ids := m_document_ids b @ [ident]\<rparr>))"
  by (simp add: generate_id_def add_id_def Let_def split: prod.splits)

text \<open>
  Claim C9, as amended. Each call of \<open>configue\<close> runs one statement on the session, the
  one that reads the three session variables, whatever the aggregator holds: nothing is
  cached, so a second call on the same aggregator runs the statement again. When the
  statement throws, or returns a number of rows other than one (the internal error), or
  its row cannot be read, \<open>configue\<close> returns the error and leaves the aggregator as it
  was: no id is generated and nothing is emitted. When it returns exactly one row,
  \<open>configue\<close> stores the three values as the variables, changes nothing else, and the
  next id is generated from exactly these variables.
\<close>

theorem configuration_fetch:
  assumes "run_query sql configue_query s = (answer, s')"
  shows "configue_query =
     ''SELECT @@mysqlx_document_id_unique_prefix,@@auto_increment_offset,@@auto_increment_increment'' \<and>
   snd (snd (configue sql s b)) = s' \<and>
   snd (snd (configue sql s' (fst (snd (configue sql s b))))) = snd (run_query sql configue_query s') \<and>
   (answer = Inl e \<longrightarrow> configue sql s b = (Inl e, b, s')) \<and>
   (answer = Inr rows \<and> length rows \<noteq> 1 \<longrightarrow> configue sql s b = (Inl ConfigFetchFailed, b, s')) \<and>
   (answer = Inr [r] \<and> get_variables sql r = Inl e \<longrightarrow> configue sql s b = (Inl e, b, s')) \<and>
   (answer = Inr [r] \<and> get_variables sql r = Inr (p, off, inc) \<longrightarrow>
      configue sql s b =
        (Inr (), b\<lparr>m_variables := \<lparr>prefix = p, offset = off, increment = inc\<rparr>\<rparr>, s') \<and>
      fst (generate_id env (fst (snd (configue sql s b)))) =
        fst (generate env \<lparr>prefix = p, offset = off, increment = inc\<rparr> (m_base_id_generator b)))"
proof -
  have q: "configue_query =
     ''SELECT @@mysqlx_document_id_unique_prefix,@@auto_increment_offset,@@auto_increment_increment''"
    by (simp add: configue_query_def)
  have once: "snd (snd (configue sql s b)) = s'"
    using configue_session [of sql s b] assms by simp
  have again: "snd (snd (configue sql s' (fst (snd (configue sql s b))))) =
      snd (run_query sql configue_query s')"
    by (rule configue_session)
  have throws: "configue sql s b = (Inl e, b, s')" if "answer = Inl e"
    using that assms by (simp add: configue_query_throws)
  have count: "configue sql s b = (Inl ConfigFetchFailed, b, s')"
    if "answer = Inr rows \<and> length rows \<noteq> 1"
    using that assms by (simp add: configue_wrong_row_count)
  have unread: "configue sql s b = (Inl e, b, s')"
    if "answer = Inr [r] \<and> get_variables sql r = Inl e"
    using that assms by (simp add: configue_get_throws)
  have stored: "configue sql s b =
        (Inr (), b\<lparr>m_variables := \<lparr>prefix = p, offset = off, increment = inc\<rparr>\<rparr>, s') \<and>
      fst (generate_id env (fst (snd (configue sql s b)))) =
        fst (generate env \<lparr>prefix = p, offset = off, increment = inc\<rparr> (m_base_id_generator b))"
    if "answer = Inr [r] \<and> get_variables sql r = Inr (p, off, inc)"
    using that assms
    by (simp add: configue_stores generate_id_after_configue split: prod.splits)
  from q once again throws count unread stored show ?thesis by blast
qed

theorem configuration_fetch_witness:
  "configue demo_session ([], []) demo_builder =
     (Inl ConfigFetchFailed, demo_builder, ([configue_query], [])) \<and>
   configue demo_session ([], [(1, 1, 1), (2, 1, 1)]) demo_builder =
     (Inl ConfigFetchFailed, demo_builder, ([configue_query], [(1, 1, 1), (2, 1, 1)])) \<and>
   configue demo_session ([], [(5, 3, 2)]) demo_builder =
     (Inr (), demo_builder\<lparr>m_variables := \<lparr>prefix = 5, offset = 3, increment = 2\<rparr>\<rparr>,
      ([configue_query], [(5, 3, 2)])) \<and>
   fst (generate_id demo_env (fst (snd (configue demo_session ([], [(5, 3, 2)]) demo_builder)))) =
     fst (generate demo_env \<lparr>prefix = 5, offset = 3, increment = 2\<rparr> 0)"
proof -
  have run: "run_query demo_session configue_query ([], rows) = (Inr rows, ([configue_query], rows))"
    for rows
    by (simp add: demo_session_def)
  have get: "get_variables demo_session (5, 3, 2) = Inr (5, 3, 2)"
    by (simp add: demo_session_def)
  from configuration_fetch [OF run [of "[]"], where b = demo_builder and rows = "[]"
      and e = ConfigFetchFailed and r = "(5, 3, 2)" and p = 5 and off = 3 and inc = 2
      and env = demo_env]
    configuration_fetch [OF run [of "[(1, 1, 1), (2, 1, 1)]"], where b = demo_builder
      and rows = "[(1, 1, 1), (2, 1, 1)]"
      and e = ConfigFetchFailed and r = "(5, 3, 2)" and p = 5 and off = 3 and inc = 2
      and env = demo_env]
    configuration_fetch [OF run [of "[(5, 3, 2)]"], where b = demo_builder and rows = "[]"
      and e = ConfigFetchFailed and r = "(5, 3, 2)" and p = 5 and off = 3 and inc = 2
      and env = demo_env] get
  show ?thesis
    by (simp add: demo_builder_def generate_id_def add_id_def Let_def split: prod.splits)
qed

text \<open>
  Claim C9 as stated fails: the aggregator does not limit the fetch to one per instance.
  A second \<open>configue\<close> on an aggregator that already holds its variables runs the
  statement again; the session has then run it twice.
\<close>

theorem configuration_fetch_counterexample:
  "configue demo_session ([], [(5, 3, 2)]) demo_builder =
     (Inr (), demo_builder\<lparr>m_variables := \<lparr>prefix = 5, offset = 3, increment = 2\<rparr>\<rparr>,
      ([configue_query], [(5, 3, 2)])) \<and>
   configue demo_session ([configue_query], [(5, 3, 2)])
       (demo_builder\<lparr>m_variables := \<lparr>prefix = 5, offset = 3, increment = 2\<rparr>\<rparr>) =
     (Inr (), demo_builder\<lparr>m_variables := \<lparr>prefix = 5, offset = 3, increment = 2\<rparr>\<rparr>,
      ([configue_query, configue_query], [(5, 3, 2)]))"
  by (simp add: configue_def demo_session_def demo_builder_def)

end
